theory Spec2Isabelle
  imports Main "HOL-Library.Signed_Division"
begin

section \<open>Strings of the source\<close>

text \<open>
  A TypeScript string is modelled as a \<^typ>\<open>string\<close>, the list of the bytes of its UTF-8
  encoding. The encoding is injective, so \<open>===\<close> on strings is equality of the byte lists.
  ASCII literals are written as they are in the source; every other literal is a named byte
  list, with its Unicode code points given beside it.
\<close>

text \<open>Compass directions of \<open>getPalaceDirection\<close> and its fallback.\<close>

text \<open>\<open>zheng_bei\<close>: code points U+6B63 U+5317.\<close>

abbreviation zheng_bei :: string where
  "zheng_bei \<equiv>
     [CHR 0xE6, CHR 0xAD, CHR 0xA3, CHR 0xE5, CHR 0x8C, CHR 0x97]"

text \<open>\<open>dong_bei\<close>: code points U+4E1C U+5317.\<close>

abbreviation dong_bei :: string where
  "dong_bei \<equiv>
     [CHR 0xE4, CHR 0xB8, CHR 0x9C, CHR 0xE5, CHR 0x8C, CHR 0x97]"

text \<open>\<open>zheng_dong\<close>: code points U+6B63 U+4E1C.\<close>

abbreviation zheng_dong :: string where
  "zheng_dong \<equiv>
     [CHR 0xE6, CHR 0xAD, CHR 0xA3, CHR 0xE4, CHR 0xB8, CHR 0x9C]"

text \<open>\<open>dong_nan\<close>: code points U+4E1C U+5357.\<close>

abbreviation dong_nan :: string where
  "dong_nan \<equiv>
     [CHR 0xE4, CHR 0xB8, CHR 0x9C, CHR 0xE5, CHR 0x8D, CHR 0x97]"

text \<open>\<open>zheng_nan\<close>: code points U+6B63 U+5357.\<close>

abbreviation zheng_nan :: string where
  "zheng_nan \<equiv>
     [CHR 0xE6, CHR 0xAD, CHR 0xA3, CHR 0xE5, CHR 0x8D, CHR 0x97]"

text \<open>\<open>xi_nan\<close>: code points U+897F U+5357.\<close>

abbreviation xi_nan :: string where
  "xi_nan \<equiv>
     [CHR 0xE8, CHR 0xA5, CHR 0xBF, CHR 0xE5, CHR 0x8D, CHR 0x97]"

text \<open>\<open>zheng_xi\<close>: code points U+6B63 U+897F.\<close>

abbreviation zheng_xi :: string where
  "zheng_xi \<equiv>
     [CHR 0xE6, CHR 0xAD, CHR 0xA3, CHR 0xE8, CHR 0xA5, CHR 0xBF]"

text \<open>\<open>xi_bei\<close>: code points U+897F U+5317.\<close>

abbreviation xi_bei :: string where
  "xi_bei \<equiv>
     [CHR 0xE8, CHR 0xA5, CHR 0xBF, CHR 0xE5, CHR 0x8C, CHR 0x97]"

text \<open>\<open>wei_zhi\<close>: code points U+672A U+77E5.\<close>

abbreviation wei_zhi :: string where
  "wei_zhi \<equiv>
     [CHR 0xE6, CHR 0x9C, CHR 0xAA, CHR 0xE7, CHR 0x9F, CHR 0xA5]"

text \<open>The twelve canonical palace names.\<close>

text \<open>\<open>ming_gong\<close>: code points U+547D U+5BAB.\<close>

abbreviation ming_gong :: string where
  "ming_gong \<equiv>
     [CHR 0xE5, CHR 0x91, CHR 0xBD, CHR 0xE5, CHR 0xAE, CHR 0xAB]"

text \<open>\<open>xiongdi_gong\<close>: code points U+5144 U+5F1F U+5BAB.\<close>

abbreviation xiongdi_gong :: string where
  "xiongdi_gong \<equiv>
     [CHR 0xE5, CHR 0x85, CHR 0x84, CHR 0xE5, CHR 0xBC, CHR 0x9F, CHR 0xE5, CHR 0xAE, CHR 0xAB]"

text \<open>\<open>fuqi_gong\<close>: code points U+592B U+59BB U+5BAB.\<close>

abbreviation fuqi_gong :: string where
  "fuqi_gong \<equiv>
     [CHR 0xE5, CHR 0xA4, CHR 0xAB, CHR 0xE5, CHR 0xA6, CHR 0xBB, CHR 0xE5, CHR 0xAE, CHR 0xAB]"

text \<open>\<open>zinv_gong\<close>: code points U+5B50 U+5973 U+5BAB.\<close>

abbreviation zinv_gong :: string where
  "zinv_gong \<equiv>
     [CHR 0xE5, CHR 0xAD, CHR 0x90, CHR 0xE5, CHR 0xA5, CHR 0xB3, CHR 0xE5, CHR 0xAE, CHR 0xAB]"

text \<open>\<open>caibo_gong\<close>: code points U+8D22 U+5E1B U+5BAB.\<close>

abbreviation caibo_gong :: string where
  "caibo_gong \<equiv>
     [CHR 0xE8, CHR 0xB4, CHR 0xA2, CHR 0xE5, CHR 0xB8, CHR 0x9B, CHR 0xE5, CHR 0xAE, CHR 0xAB]"

text \<open>\<open>jie_gong\<close>: code points U+75BE U+5384 U+5BAB.\<close>

abbreviation jie_gong :: string where
  "jie_gong \<equiv>
     [CHR 0xE7, CHR 0x96, CHR 0xBE, CHR 0xE5, CHR 0x8E, CHR 0x84, CHR 0xE5, CHR 0xAE, CHR 0xAB]"

text \<open>\<open>qianyi_gong\<close>: code points U+8FC1 U+79FB U+5BAB.\<close>

abbreviation qianyi_gong :: string where
  "qianyi_gong \<equiv>
     [CHR 0xE8, CHR 0xBF, CHR 0x81, CHR 0xE7, CHR 0xA7, CHR 0xBB, CHR 0xE5, CHR 0xAE, CHR 0xAB]"

text \<open>\<open>jiaoyou_gong\<close>: code points U+4EA4 U+53CB U+5BAB.\<close>

abbreviation jiaoyou_gong :: string where
  "jiaoyou_gong \<equiv>
     [CHR 0xE4, CHR 0xBA, CHR 0xA4, CHR 0xE5, CHR 0x8F, CHR 0x8B, CHR 0xE5, CHR 0xAE, CHR 0xAB]"

text \<open>\<open>guanlu_gong\<close>: code points U+5B98 U+7984 U+5BAB.\<close>

abbreviation guanlu_gong :: string where
  "guanlu_gong \<equiv>
     [CHR 0xE5, CHR 0xAE, CHR 0x98, CHR 0xE7, CHR 0xA6, CHR 0x84, CHR 0xE5, CHR 0xAE, CHR 0xAB]"

text \<open>\<open>tianzhai_gong\<close>: code points U+7530 U+5B85 U+5BAB.\<close>

abbreviation tianzhai_gong :: string where
  "tianzhai_gong \<equiv>
     [CHR 0xE7, CHR 0x94, CHR 0xB0, CHR 0xE5, CHR 0xAE, CHR 0x85, CHR 0xE5, CHR 0xAE, CHR 0xAB]"

text \<open>\<open>fude_gong\<close>: code points U+798F U+5FB7 U+5BAB.\<close>

abbreviation fude_gong :: string where
  "fude_gong \<equiv>
     [CHR 0xE7, CHR 0xA6, CHR 0x8F, CHR 0xE5, CHR 0xBE, CHR 0xB7, CHR 0xE5, CHR 0xAE, CHR 0xAB]"

text \<open>\<open>fumu_gong\<close>: code points U+7236 U+6BCD U+5BAB.\<close>

abbreviation fumu_gong :: string where
  "fumu_gong \<equiv>
     [CHR 0xE7, CHR 0x88, CHR 0xB6, CHR 0xE6, CHR 0xAF, CHR 0x8D, CHR 0xE5, CHR 0xAE, CHR 0xAB]"

text \<open>Star names of the mock chart.\<close>

text \<open>\<open>zi_wei\<close>: code points U+7D2B U+5FAE.\<close>

abbreviation zi_wei :: string where
  "zi_wei \<equiv>
     [CHR 0xE7, CHR 0xB4, CHR 0xAB, CHR 0xE5, CHR 0xBE, CHR 0xAE]"

text \<open>\<open>tian_fu\<close>: code points U+5929 U+5E9C.\<close>

abbreviation tian_fu :: string where
  "tian_fu \<equiv>
     [CHR 0xE5, CHR 0xA4, CHR 0xA9, CHR 0xE5, CHR 0xBA, CHR 0x9C]"

text \<open>\<open>tian_ji\<close>: code points U+5929 U+673A.\<close>

abbreviation tian_ji :: string where
  "tian_ji \<equiv>
     [CHR 0xE5, CHR 0xA4, CHR 0xA9, CHR 0xE6, CHR 0x9C, CHR 0xBA]"

text \<open>\<open>tai_yang\<close>: code points U+592A U+9633.\<close>

abbreviation tai_yang :: string where
  "tai_yang \<equiv>
     [CHR 0xE5, CHR 0xA4, CHR 0xAA, CHR 0xE9, CHR 0x98, CHR 0xB3]"

text \<open>\<open>tai_yin\<close>: code points U+592A U+9634.\<close>

abbreviation tai_yin :: string where
  "tai_yin \<equiv>
     [CHR 0xE5, CHR 0xA4, CHR 0xAA, CHR 0xE9, CHR 0x98, CHR 0xB4]"

text \<open>Almanac activities.\<close>

text \<open>\<open>ji_si\<close>: code points U+796D U+7940.\<close>

abbreviation ji_si :: string where
  "ji_si \<equiv>
     [CHR 0xE7, CHR 0xA5, CHR 0xAD, CHR 0xE7, CHR 0xA5, CHR 0x80]"

text \<open>\<open>qi_fu\<close>: code points U+7948 U+798F.\<close>

abbreviation qi_fu :: string where
  "qi_fu \<equiv>
     [CHR 0xE7, CHR 0xA5, CHR 0x88, CHR 0xE7, CHR 0xA6, CHR 0x8F]"

text \<open>\<open>qiu_si\<close>: code points U+6C42 U+55E3.\<close>

abbreviation qiu_si :: string where
  "qiu_si \<equiv>
     [CHR 0xE6, CHR 0xB1, CHR 0x82, CHR 0xE5, CHR 0x97, CHR 0xA3]"

text \<open>\<open>kai_guang\<close>: code points U+5F00 U+5149.\<close>

abbreviation kai_guang :: string where
  "kai_guang \<equiv>
     [CHR 0xE5, CHR 0xBC, CHR 0x80, CHR 0xE5, CHR 0x85, CHR 0x89]"

text \<open>\<open>chu_xing\<close>: code points U+51FA U+884C.\<close>

abbreviation chu_xing :: string where
  "chu_xing \<equiv>
     [CHR 0xE5, CHR 0x87, CHR 0xBA, CHR 0xE8, CHR 0xA1, CHR 0x8C]"

text \<open>\<open>jie_chu\<close>: code points U+89E3 U+9664.\<close>

abbreviation jie_chu :: string where
  "jie_chu \<equiv>
     [CHR 0xE8, CHR 0xA7, CHR 0xA3, CHR 0xE9, CHR 0x99, CHR 0xA4]"

text \<open>\<open>fa_mu\<close>: code points U+4F10 U+6728.\<close>

abbreviation fa_mu :: string where
  "fa_mu \<equiv>
     [CHR 0xE4, CHR 0xBC, CHR 0x90, CHR 0xE6, CHR 0x9C, CHR 0xA8]"

text \<open>\<open>ru_zhai\<close>: code points U+5165 U+5B85.\<close>

abbreviation ru_zhai :: string where
  "ru_zhai \<equiv>
     [CHR 0xE5, CHR 0x85, CHR 0xA5, CHR 0xE5, CHR 0xAE, CHR 0x85]"

text \<open>\<open>yi_xi\<close>: code points U+79FB U+5F99.\<close>

abbreviation yi_xi :: string where
  "yi_xi \<equiv>
     [CHR 0xE7, CHR 0xA7, CHR 0xBB, CHR 0xE5, CHR 0xBE, CHR 0x99]"

text \<open>\<open>an_chuang\<close>: code points U+5B89 U+5E8A.\<close>

abbreviation an_chuang :: string where
  "an_chuang \<equiv>
     [CHR 0xE5, CHR 0xAE, CHR 0x89, CHR 0xE5, CHR 0xBA, CHR 0x8A]"

text \<open>\<open>kai_ye\<close>: code points U+5F00 U+4E1A.\<close>

abbreviation kai_ye :: string where
  "kai_ye \<equiv>
     [CHR 0xE5, CHR 0xBC, CHR 0x80, CHR 0xE4, CHR 0xB8, CHR 0x9A]"

text \<open>\<open>jian_cai\<close>: code points U+526A U+5F69.\<close>

abbreviation jian_cai :: string where
  "jian_cai \<equiv>
     [CHR 0xE5, CHR 0x89, CHR 0xAA, CHR 0xE5, CHR 0xBD, CHR 0xA9]"

text \<open>\<open>na_cai\<close>: code points U+7EB3 U+8D22.\<close>

abbreviation na_cai :: string where
  "na_cai \<equiv>
     [CHR 0xE7, CHR 0xBA, CHR 0xB3, CHR 0xE8, CHR 0xB4, CHR 0xA2]"

text \<open>\<open>jia_qu\<close>: code points U+5AC1 U+5A36.\<close>

abbreviation jia_qu :: string where
  "jia_qu \<equiv>
     [CHR 0xE5, CHR 0xAB, CHR 0x81, CHR 0xE5, CHR 0xA8, CHR 0xB6]"

text \<open>\<open>an_zang\<close>: code points U+5B89 U+846C.\<close>

abbreviation an_zang :: string where
  "an_zang \<equiv>
     [CHR 0xE5, CHR 0xAE, CHR 0x89, CHR 0xE8, CHR 0x91, CHR 0xAC]"

text \<open>\<open>po_tu\<close>: code points U+7834 U+571F.\<close>

abbreviation po_tu :: string where
  "po_tu \<equiv>
     [CHR 0xE7, CHR 0xA0, CHR 0xB4, CHR 0xE5, CHR 0x9C, CHR 0x9F]"

text \<open>\<open>xiu_fen\<close>: code points U+4FEE U+575F.\<close>

abbreviation xiu_fen :: string where
  "xiu_fen \<equiv>
     [CHR 0xE4, CHR 0xBF, CHR 0xAE, CHR 0xE5, CHR 0x9D, CHR 0x9F]"

text \<open>\<open>na_chu\<close>: code points U+7EB3 U+755C.\<close>

abbreviation na_chu :: string where
  "na_chu \<equiv>
     [CHR 0xE7, CHR 0xBA, CHR 0xB3, CHR 0xE7, CHR 0x95, CHR 0x9C]"

text \<open>Message prefix of the error thrown by \<open>calculateZiweiChart\<close>.\<close>

text \<open>\<open>xingpan_jisuan_shibai\<close>: code points U+661F U+76D8 U+8BA1 U+7B97 U+5931 U+8D25 U+003A U+0020.\<close>

abbreviation xingpan_jisuan_shibai :: string where
  "xingpan_jisuan_shibai \<equiv>
     [CHR 0xE6, CHR 0x98, CHR 0x9F, CHR 0xE7, CHR 0x9B, CHR 0x98, CHR 0xE8, CHR 0xAE, CHR 0xA1,
     CHR 0xE7, CHR 0xAE, CHR 0x97, CHR 0xE5, CHR 0xA4, CHR 0xB1, CHR 0xE8, CHR 0xB4, CHR 0xA5,
     CHR 0x3A, CHR 0x20]"

text \<open>Texts of \<open>getPalaceSignificance\<close>.\<close>

text \<open>\<open>sig_ming\<close>: code points U+4EE3 U+8868 U+4E2A U+4EBA U+6027 U+683C U+3001 U+5148 U+5929 U+8FD0 U+52BF U+3001 U+6574 U+4F53 U+547D U+8FD0.\<close>

definition sig_ming :: string where
  "sig_ming =
     [CHR 0xE4, CHR 0xBB, CHR 0xA3, CHR 0xE8, CHR 0xA1, CHR 0xA8, CHR 0xE4, CHR 0xB8, CHR 0xAA,
     CHR 0xE4, CHR 0xBA, CHR 0xBA, CHR 0xE6, CHR 0x80, CHR 0xA7, CHR 0xE6, CHR 0xA0, CHR 0xBC,
     CHR 0xE3, CHR 0x80, CHR 0x81, CHR 0xE5, CHR 0x85, CHR 0x88, CHR 0xE5, CHR 0xA4, CHR 0xA9,
     CHR 0xE8, CHR 0xBF, CHR 0x90, CHR 0xE5, CHR 0x8A, CHR 0xBF, CHR 0xE3, CHR 0x80, CHR 0x81,
     CHR 0xE6, CHR 0x95, CHR 0xB4, CHR 0xE4, CHR 0xBD, CHR 0x93, CHR 0xE5, CHR 0x91, CHR 0xBD,
     CHR 0xE8, CHR 0xBF, CHR 0x90]"

text \<open>\<open>sig_xiongdi\<close>: code points U+4EE3 U+8868 U+5144 U+5F1F U+59D0 U+59B9 U+3001 U+670B U+53CB U+3001 U+5408 U+4F5C U+4F19 U+4F34 U+5173 U+7CFB.\<close>

definition sig_xiongdi :: string where
  "sig_xiongdi =
     [CHR 0xE4, CHR 0xBB, CHR 0xA3, CHR 0xE8, CHR 0xA1, CHR 0xA8, CHR 0xE5, CHR 0x85, CHR 0x84,
     CHR 0xE5, CHR 0xBC, CHR 0x9F, CHR 0xE5, CHR 0xA7, CHR 0x90, CHR 0xE5, CHR 0xA6, CHR 0xB9,
     CHR 0xE3, CHR 0x80, CHR 0x81, CHR 0xE6, CHR 0x9C, CHR 0x8B, CHR 0xE5, CHR 0x8F, CHR 0x8B,
     CHR 0xE3, CHR 0x80, CHR 0x81, CHR 0xE5, CHR 0x90, CHR 0x88, CHR 0xE4, CHR 0xBD, CHR 0x9C,
     CHR 0xE4, CHR 0xBC, CHR 0x99, CHR 0xE4, CHR 0xBC, CHR 0xB4, CHR 0xE5, CHR 0x85, CHR 0xB3,
     CHR 0xE7, CHR 0xB3, CHR 0xBB]"

text \<open>\<open>sig_fuqi\<close>: code points U+4EE3 U+8868 U+5A5A U+59FB U+3001 U+914D U+5076 U+3001 U+611F U+60C5 U+5173 U+7CFB.\<close>

definition sig_fuqi :: string where
  "sig_fuqi =
     [CHR 0xE4, CHR 0xBB, CHR 0xA3, CHR 0xE8, CHR 0xA1, CHR 0xA8, CHR 0xE5, CHR 0xA9, CHR 0x9A,
     CHR 0xE5, CHR 0xA7, CHR 0xBB, CHR 0xE3, CHR 0x80, CHR 0x81, CHR 0xE9, CHR 0x85, CHR 0x8D,
     CHR 0xE5, CHR 0x81, CHR 0xB6, CHR 0xE3, CHR 0x80, CHR 0x81, CHR 0xE6, CHR 0x84, CHR 0x9F,
     CHR 0xE6, CHR 0x83, CHR 0x85, CHR 0xE5, CHR 0x85, CHR 0xB3, CHR 0xE7, CHR 0xB3, CHR 0xBB]"

text \<open>\<open>sig_zinv\<close>: code points U+4EE3 U+8868 U+5B50 U+5973 U+3001 U+665A U+8F88 U+3001 U+521B U+9020 U+529B.\<close>

definition sig_zinv :: string where
  "sig_zinv =
     [CHR 0xE4, CHR 0xBB, CHR 0xA3, CHR 0xE8, CHR 0xA1, CHR 0xA8, CHR 0xE5, CHR 0xAD, CHR 0x90,
     CHR 0xE5, CHR 0xA5, CHR 0xB3, CHR 0xE3, CHR 0x80, CHR 0x81, CHR 0xE6, CHR 0x99, CHR 0x9A,
     CHR 0xE8, CHR 0xBE, CHR 0x88, CHR 0xE3, CHR 0x80, CHR 0x81, CHR 0xE5, CHR 0x88, CHR 0x9B,
     CHR 0xE9, CHR 0x80, CHR 0xA0, CHR 0xE5, CHR 0x8A, CHR 0x9B]"

text \<open>\<open>sig_caibo\<close>: code points U+4EE3 U+8868 U+8D22 U+5BCC U+3001 U+6536 U+5165 U+3001 U+7406 U+8D22 U+80FD U+529B.\<close>

definition sig_caibo :: string where
  "sig_caibo =
     [CHR 0xE4, CHR 0xBB, CHR 0xA3, CHR 0xE8, CHR 0xA1, CHR 0xA8, CHR 0xE8, CHR 0xB4, CHR 0xA2,
     CHR 0xE5, CHR 0xAF, CHR 0x8C, CHR 0xE3, CHR 0x80, CHR 0x81, CHR 0xE6, CHR 0x94, CHR 0xB6,
     CHR 0xE5, CHR 0x85, CHR 0xA5, CHR 0xE3, CHR 0x80, CHR 0x81, CHR 0xE7, CHR 0x90, CHR 0x86,
     CHR 0xE8, CHR 0xB4, CHR 0xA2, CHR 0xE8, CHR 0x83, CHR 0xBD, CHR 0xE5, CHR 0x8A, CHR 0x9B]"

text \<open>\<open>sig_jie\<close>: code points U+4EE3 U+8868 U+5065 U+5EB7 U+3001 U+75BE U+75C5 U+3001 U+4F53 U+8D28.\<close>

definition sig_jie :: string where
  "sig_jie =
     [CHR 0xE4, CHR 0xBB, CHR 0xA3, CHR 0xE8, CHR 0xA1, CHR 0xA8, CHR 0xE5, CHR 0x81, CHR 0xA5,
     CHR 0xE5, CHR 0xBA, CHR 0xB7, CHR 0xE3, CHR 0x80, CHR 0x81, CHR 0xE7, CHR 0x96, CHR 0xBE,
     CHR 0xE7, CHR 0x97, CHR 0x85, CHR 0xE3, CHR 0x80, CHR 0x81, CHR 0xE4, CHR 0xBD, CHR 0x93,
     CHR 0xE8, CHR 0xB4, CHR 0xA8]"

text \<open>\<open>sig_qianyi\<close>: code points U+4EE3 U+8868 U+5916 U+51FA U+3001 U+65C5 U+884C U+3001 U+4EBA U+9645 U+5173 U+7CFB.\<close>

definition sig_qianyi :: string where
  "sig_qianyi =
     [CHR 0xE4, CHR 0xBB, CHR 0xA3, CHR 0xE8, CHR 0xA1, CHR 0xA8, CHR 0xE5, CHR 0xA4, CHR 0x96,
     CHR 0xE5, CHR 0x87, CHR 0xBA, CHR 0xE3, CHR 0x80, CHR 0x81, CHR 0xE6, CHR 0x97, CHR 0x85,
     CHR 0xE8, CHR 0xA1, CHR 0x8C, CHR 0xE3, CHR 0x80, CHR 0x81, CHR 0xE4, CHR 0xBA, CHR 0xBA,
     CHR 0xE9, CHR 0x99, CHR 0x85, CHR 0xE5, CHR 0x85, CHR 0xB3, CHR 0xE7, CHR 0xB3, CHR 0xBB]"

text \<open>\<open>sig_jiaoyou\<close>: code points U+4EE3 U+8868 U+670B U+53CB U+3001 U+540C U+4E8B U+3001 U+793E U+4EA4 U+5708.\<close>

definition sig_jiaoyou :: string where
  "sig_jiaoyou =
     [CHR 0xE4, CHR 0xBB, CHR 0xA3, CHR 0xE8, CHR 0xA1, CHR 0xA8, CHR 0xE6, CHR 0x9C, CHR 0x8B,
     CHR 0xE5, CHR 0x8F, CHR 0x8B, CHR 0xE3, CHR 0x80, CHR 0x81, CHR 0xE5, CHR 0x90, CHR 0x8C,
     CHR 0xE4, CHR 0xBA, CHR 0x8B, CHR 0xE3, CHR 0x80, CHR 0x81, CHR 0xE7, CHR 0xA4, CHR 0xBE,
     CHR 0xE4, CHR 0xBA, CHR 0xA4, CHR 0xE5, CHR 0x9C, CHR 0x88]"

text \<open>\<open>sig_guanlu\<close>: code points U+4EE3 U+8868 U+4E8B U+4E1A U+3001 U+5DE5 U+4F5C U+3001 U+804C U+4E1A U+53D1 U+5C55.\<close>

definition sig_guanlu :: string where
  "sig_guanlu =
     [CHR 0xE4, CHR 0xBB, CHR 0xA3, CHR 0xE8, CHR 0xA1, CHR 0xA8, CHR 0xE4, CHR 0xBA, CHR 0x8B,
     CHR 0xE4, CHR 0xB8, CHR 0x9A, CHR 0xE3, CHR 0x80, CHR 0x81, CHR 0xE5, CHR 0xB7, CHR 0xA5,
     CHR 0xE4, CHR 0xBD, CHR 0x9C, CHR 0xE3, CHR 0x80, CHR 0x81, CHR 0xE8, CHR 0x81, CHR 0x8C,
     CHR 0xE4, CHR 0xB8, CHR 0x9A, CHR 0xE5, CHR 0x8F, CHR 0x91, CHR 0xE5, CHR 0xB1, CHR 0x95]"

text \<open>\<open>sig_tianzhai\<close>: code points U+4EE3 U+8868 U+623F U+4EA7 U+3001 U+5BB6 U+5EAD U+3001 U+7956 U+4E1A.\<close>

definition sig_tianzhai :: string where
  "sig_tianzhai =
     [CHR 0xE4, CHR 0xBB, CHR 0xA3, CHR 0xE8, CHR 0xA1, CHR 0xA8, CHR 0xE6, CHR 0x88, CHR 0xBF,
     CHR 0xE4, CHR 0xBA, CHR 0xA7, CHR 0xE3, CHR 0x80, CHR 0x81, CHR 0xE5, CHR 0xAE, CHR 0xB6,
     CHR 0xE5, CHR 0xBA, CHR 0xAD, CHR 0xE3, CHR 0x80, CHR 0x81, CHR 0xE7, CHR 0xA5, CHR 0x96,
     CHR 0xE4, CHR 0xB8, CHR 0x9A]"

text \<open>\<open>sig_fude\<close>: code points U+4EE3 U+8868 U+798F U+6C14 U+3001 U+7CBE U+795E U+751F U+6D3B U+3001 U+5174 U+8DA3 U+7231 U+597D.\<close>

definition sig_fude :: string where
  "sig_fude =
     [CHR 0xE4, CHR 0xBB, CHR 0xA3, CHR 0xE8, CHR 0xA1, CHR 0xA8, CHR 0xE7, CHR 0xA6, CHR 0x8F,
     CHR 0xE6, CHR 0xB0, CHR 0x94, CHR 0xE3, CHR 0x80, CHR 0x81, CHR 0xE7, CHR 0xB2, CHR 0xBE,
     CHR 0xE7, CHR 0xA5, CHR 0x9E, CHR 0xE7, CHR 0x94, CHR 0x9F, CHR 0xE6, CHR 0xB4, CHR 0xBB,
     CHR 0xE3, CHR 0x80, CHR 0x81, CHR 0xE5, CHR 0x85, CHR 0xB4, CHR 0xE8, CHR 0xB6, CHR 0xA3,
     CHR 0xE7, CHR 0x88, CHR 0xB1, CHR 0xE5, CHR 0xA5, CHR 0xBD]"

text \<open>\<open>sig_fumu\<close>: code points U+4EE3 U+8868 U+7236 U+6BCD U+3001 U+957F U+8F88 U+3001 U+4E0A U+53F8.\<close>

definition sig_fumu :: string where
  "sig_fumu =
     [CHR 0xE4, CHR 0xBB, CHR 0xA3, CHR 0xE8, CHR 0xA1, CHR 0xA8, CHR 0xE7, CHR 0x88, CHR 0xB6,
     CHR 0xE6, CHR 0xAF, CHR 0x8D, CHR 0xE3, CHR 0x80, CHR 0x81, CHR 0xE9, CHR 0x95, CHR 0xBF,
     CHR 0xE8, CHR 0xBE, CHR 0x88, CHR 0xE3, CHR 0x80, CHR 0x81, CHR 0xE4, CHR 0xB8, CHR 0x8A,
     CHR 0xE5, CHR 0x8F, CHR 0xB8]"

text \<open>\<open>weizhi_gongwei\<close>: code points U+672A U+77E5 U+5BAB U+4F4D.\<close>

definition weizhi_gongwei :: string where
  "weizhi_gongwei =
     [CHR 0xE6, CHR 0x9C, CHR 0xAA, CHR 0xE7, CHR 0x9F, CHR 0xA5, CHR 0xE5, CHR 0xAE, CHR 0xAB,
     CHR 0xE4, CHR 0xBD, CHR 0x8D]"


section \<open>Values of the JavaScript runtime\<close>

text \<open>
  A thrown \<open>Error\<close> is a value carrying its message; a computation that may throw returns
  \<open>js_error + 'a\<close>, with \<open>Inl\<close> for the throw.
\<close>

datatype js_error = Error (message: string)

text \<open>
  \<open>str.split(sep)\<close> for a separator of one ASCII character. The result is never empty:
  the empty string splits into one empty piece.
\<close>

fun split_on :: "char \<Rightarrow> string \<Rightarrow> string list" where
  "split_on c [] = [[]]"
| "split_on c (x # xs) =
     (if x = c then [] # split_on c xs
      else (case split_on c xs of [] \<Rightarrow> [[x]] | y # ys \<Rightarrow> (x # y) # ys))"

text \<open>\<open>xs[i]\<close>: reading an array out of range gives \<open>undefined\<close>, here \<open>None\<close>.\<close>

definition at :: "'a list \<Rightarrow> nat \<Rightarrow> 'a option" where
  "at xs i = (if i < length xs then Some (xs ! i) else None)"

text \<open>
  A \<open>Date\<close> value, by the instant it holds and the observations the source makes of it.
  \<open>getMonth()\<close> of a \<open>Date\<close> counts from 0.
\<close>

record Date =
  getTime :: int
  getFullYear :: int
  date_getMonth :: int
  toISOString :: string

text \<open>
  The built-in conversions \<open>Number\<close> and \<open>parseInt\<close> are parameters of the model; \<open>'n\<close> is
  the type of the numbers they produce (which include \<open>NaN\<close>). \<open>parseInt\<close> may be applied to
  \<open>undefined\<close>.
\<close>

record 'n JsRuntime =
  Number :: "string \<Rightarrow> 'n"
  parseInt :: "string option \<Rightarrow> 'n"

section \<open>Data model\<close>

text \<open>
  The lunar date object of the calendar library, by the three getters the source calls.
\<close>

record Lunar =
  getYear :: int
  getMonth :: int
  getDay :: int

record Pillar =
  stem :: string
  branch :: string

record FourPillars =
  fp_year :: Pillar
  fp_month :: Pillar
  fp_day :: Pillar
  fp_hour :: Pillar

record Palace =
  name :: string
  position :: int
  stars :: "string list"

text \<open>A palace of the assembled chart: the raw palace with the three added attributes.\<close>

record ChartPalace = Palace +
  isVoid :: bool
  direction :: string
  significance :: string

record LuckPeriod =
  startAge :: int
  endAge :: int
  period_palace :: string

record LuckPeriods =
  major :: "LuckPeriod list"
  minor :: LuckPeriod
  annual :: LuckPeriod
  monthly :: LuckPeriod
  daily :: LuckPeriod
  hourly :: LuckPeriod

text \<open>
  A \<open>Record<string, T>\<close> is a map from keys to values; a key that was never assigned reads
  \<open>undefined\<close>, here \<open>None\<close>. Keys inherited from \<open>Object.prototype\<close> are not modelled:
  no palace is named \<open>constructor\<close> or \<open>toString\<close>.
\<close>

record StarInfo =
  mainStars :: "string \<rightharpoonup> string list"
  luckyStars :: "string \<rightharpoonup> string list"
  evilStars :: "string \<rightharpoonup> string list"
  keyStarsLocation :: "string \<rightharpoonup> string"

record Transformation =
  tr_star :: string
  tr_type :: string

record StemTransformations =
  st_stem :: string
  st_transformations :: "Transformation list"

record TransformationInfo =
  yearStem :: StemTransformations
  dayStem :: StemTransformations
  tr_palaces :: "string \<rightharpoonup> Transformation list"

record ZiweiChartResult =
  zodiac :: string
  constellation :: string
  fourPillars :: FourPillars
  palaces :: "ChartPalace list"
  luckPeriods :: LuckPeriods
  starsInfo :: StarInfo
  transformations :: TransformationInfo
  calculationTime :: string

record CalculateZiweiDto =
  birthDate :: string
  birthTime :: string
  birthPlace :: string
  dateType :: string
  gender :: string

record TripleSquare =
  originalPalace :: string
  triplePalaces :: "string list"
  squarePalaces :: "string list"
  allRelatedPalaces :: "string list"

text \<open>What \<open>getStarTransformation\<close> returns for a star that has a transformation.\<close>

record StarTransformation =
  star_tr_type :: string
  star_tr_name :: string

record TransformationDetail =
  detail_palace :: string
  detail_star :: string
  detail_transformation :: string

record TransformationCheck =
  exists :: bool
  details :: "TransformationDetail list"

record SuitabilityItems =
  suitable :: "string list"
  avoid :: "string list"

text \<open>The object \<open>{ date: dateStr, ...suitability }\<close>.\<close>

record SuitableAvoid = SuitabilityItems +
  date :: string

section \<open>Collaborators\<close>

text \<open>
  The calendar library \<open>tyme4ts\<close> and the two services \<open>Tyme4tsService\<close> and
  \<open>IztroService\<close> are not part of the source; the model takes their functions as
  parameters. The calendar conversions, the four-pillars computation, the chart computation and
  the palace-geometry lookup may throw; the other methods are taken as total.

  \<open>solarToLunar y m d\<close> is \<open>Solar.fromYmd(y, m, d).getLunar()\<close> and \<open>Lunar_fromYmd\<close> is
  \<open>Lunar.fromYmd\<close>. Their arguments come from a destructured array and may be \<open>undefined\<close>.
\<close>

record 'n Tyme4ts =
  solarToLunar :: "'n option \<Rightarrow> 'n option \<Rightarrow> 'n option \<Rightarrow> js_error + Lunar"
  Lunar_fromYmd :: "'n option \<Rightarrow> 'n option \<Rightarrow> 'n option \<Rightarrow> js_error + Lunar"

record 'n Tyme4tsService =
  tyme_calculateFourPillars ::
    "int \<Rightarrow> int \<Rightarrow> int \<Rightarrow> 'n \<Rightarrow> 'n \<Rightarrow> string \<Rightarrow> js_error + FourPillars"
  getChineseZodiac :: "int \<Rightarrow> string"
  getConstellation :: "'n \<Rightarrow> 'n \<Rightarrow> string"

text \<open>The argument object of the chart computation of \<open>IztroService\<close>.\<close>

record 'n ChartInput =
  in_year :: int
  in_month :: int
  in_day :: int
  in_hour :: 'n
  in_minute :: 'n
  in_gender :: string

text \<open>The value the chart computation returns; the source reads its \<open>palaces\<close>.\<close>

record ZiweiData =
  data_palaces :: "Palace list"

record 'n IztroService =
  iztro_calculateZiweiChart :: "'n ChartInput \<Rightarrow> js_error + ZiweiData"
  calculateMajorPeriods :: "Lunar \<Rightarrow> string \<Rightarrow> LuckPeriod list"
  calculateMinorPeriod :: "Lunar \<Rightarrow> string \<Rightarrow> int \<Rightarrow> LuckPeriod"
  calculateAnnualPeriod :: "Lunar \<Rightarrow> int \<Rightarrow> Palace list \<Rightarrow> LuckPeriod"
  calculateMonthlyPeriod :: "Lunar \<Rightarrow> int \<Rightarrow> int \<Rightarrow> Palace list \<Rightarrow> LuckPeriod"
  calculateDailyPeriod :: "Lunar \<Rightarrow> Date \<Rightarrow> Palace list \<Rightarrow> LuckPeriod"
  calculateHourlyPeriod :: "Lunar \<Rightarrow> Date \<Rightarrow> Palace list \<Rightarrow> LuckPeriod"
  isMainStar :: "string \<Rightarrow> bool"
  isLuckyStar :: "string \<Rightarrow> bool"
  isEvilStar :: "string \<Rightarrow> bool"
  getKeyStarsLocation :: "Palace list \<Rightarrow> (string \<rightharpoonup> string)"
  getTransformationsByStem :: "string \<Rightarrow> Transformation list"
  findTransformationPalaces ::
    "Transformation list \<Rightarrow> Palace list \<Rightarrow> (string \<rightharpoonup> Transformation list)"
  iztro_getTripleSquarePalaces :: "string \<Rightarrow> js_error + TripleSquare"
  getStarTransformation :: "string \<Rightarrow> StarTransformation option"

text \<open>
  The wall clock: \<open>now k\<close> is the value of the \<open>k\<close>-th \<open>new Date()\<close> evaluated during a call,
  counted from 0. A function that reads the clock takes \<open>now\<close> as an argument.
\<close>

type_synonym clock = "nat \<Rightarrow> Date"

section \<open>Static per-palace lookups of the chart service\<close>

text \<open>
  \<open>getPalaceDirection(position)\<close> returns \<open>directions[(position - 1) % 8] || fallback\<close>, the
  fallback being \<^term>\<open>wei_zhi\<close>. The remainder of JavaScript truncates towards zero, which is
  \<open>smod\<close>; an index outside \<open>0..7\<close> reads \<open>undefined\<close>, and \<open>||\<close> replaces it by the
  fallback. No entry of the table is the empty string, so \<open>||\<close> never replaces an entry.

  The position is an integer here and a floating-point number in the code. The two agree as long
  as the subtraction is exact in the code, which it is for every integer of magnitude below 2 to
  the power 53, far beyond the positions \<open>1..12\<close> of a chart; the statements about the lookup
  are made for positions of a chart only.
\<close>

definition directions :: "string list" where
  "directions =
     [zheng_bei, dong_bei, zheng_dong, dong_nan, zheng_nan, xi_nan, zheng_xi, xi_bei]"

definition getPalaceDirection :: "int \<Rightarrow> string" where
  "getPalaceDirection pos =
     (let i = (pos - 1) smod 8
      in if 0 \<le> i \<and> i < int (length directions) then directions ! nat i else wei_zhi)"

text \<open>The position reached from \<open>p\<close> by \<open>k\<close> steps on the ring of the twelve palaces.\<close>

definition ring12 :: "int \<Rightarrow> int \<Rightarrow> int" where
  "ring12 p k = (p - 1 + k) mod 12 + 1"

text \<open>
  \<open>getPalaceSignificance(palaceName)\<close> is \<open>significanceMap[palaceName] || fallback\<close>, the
  fallback being \<^term>\<open>weizhi_gongwei\<close>.
\<close>

definition significanceMap :: "(string \<times> string) list" where
  "significanceMap =
     [(ming_gong, sig_ming), (xiongdi_gong, sig_xiongdi), (fuqi_gong, sig_fuqi),
      (zinv_gong, sig_zinv), (caibo_gong, sig_caibo), (jie_gong, sig_jie),
      (qianyi_gong, sig_qianyi), (jiaoyou_gong, sig_jiaoyou), (guanlu_gong, sig_guanlu),
      (tianzhai_gong, sig_tianzhai), (fude_gong, sig_fude), (fumu_gong, sig_fumu)]"

definition getPalaceSignificance :: "string \<Rightarrow> string" where
  "getPalaceSignificance palaceName =
     (case map_of significanceMap palaceName of
        None \<Rightarrow> weizhi_gongwei
      | Some v \<Rightarrow> if v = [] then weizhi_gongwei else v)"

section \<open>Calendar conversion and four pillars\<close>

text \<open>\<open>x || d\<close> on strings: \<open>undefined\<close> and the empty string are replaced by \<open>d\<close>.\<close>

definition or_else :: "string option \<Rightarrow> string \<Rightarrow> string" where
  "or_else x d = (case x of None \<Rightarrow> d | Some v \<Rightarrow> if v = [] then d else v)"

definition convertToLunarDate ::
  "'n JsRuntime \<Rightarrow> 'n Tyme4ts \<Rightarrow> string \<Rightarrow> string \<Rightarrow> js_error + Lunar" where
  "convertToLunarDate js lib dateStr dType =
     (let parts = map (Number js) (split_on CHR ''-'' dateStr);
          year = at parts 0; month = at parts 1; day = at parts 2
      in if dType = ''solar'' then solarToLunar lib year month day
         else Lunar_fromYmd lib year month day)"

definition calculateFourPillars ::
  "'n JsRuntime \<Rightarrow> 'n Tyme4tsService \<Rightarrow> Lunar \<Rightarrow> string \<Rightarrow> string \<Rightarrow> js_error + FourPillars"
  where
  "calculateFourPillars js tyme lunarDate bTime bPlace =
     (let hour = parseInt js (at (split_on CHR '':'' bTime) 0);
          minute = parseInt js (Some (or_else (at (split_on CHR '':'' bTime) 1) ''0''))
      in tyme_calculateFourPillars tyme (getYear lunarDate) (getMonth lunarDate)
           (getDay lunarDate) hour minute bPlace)"

section \<open>Luck periods\<close>

text \<open>
  The body of \<open>generateLuckPeriods\<close>. The first component is the value of its local constant
  \<open>currentMajor\<close>, which is \<open>majorPeriods.find(\<dots>) || majorPeriods[0]\<close>: a period found is an
  object, hence truthy, and \<open>majorPeriods[0]\<close> of an empty array is \<open>undefined\<close>. The second
  component is the object returned, which does not hold \<open>currentMajor\<close>. The function reads the
  clock four times.
\<close>

definition generateLuckPeriods_body ::
  "'n IztroService \<Rightarrow> clock \<Rightarrow> Lunar \<Rightarrow> string \<Rightarrow> Palace list
     \<Rightarrow> LuckPeriod option \<times> LuckPeriods" where
  "generateLuckPeriods_body iz now lunarDate g ps =
     (let currentYear = getFullYear (now 0);
          birthYear = getYear lunarDate;
          age = currentYear - birthYear;
          majorPeriods =
            calculateMajorPeriods iz lunarDate (if g = ''male'' then ''man'' else ''woman'');
          currentMajor =
            (case find (\<lambda>period. age \<ge> startAge period \<and> age < endAge period) majorPeriods of
               Some period \<Rightarrow> Some period
             | None \<Rightarrow> at majorPeriods 0);
          minorPeriod =
            calculateMinorPeriod iz lunarDate (if g = ''male'' then ''man'' else ''woman'')
              currentYear;
          annualPeriod = calculateAnnualPeriod iz lunarDate currentYear ps;
          monthlyPeriod =
            calculateMonthlyPeriod iz lunarDate currentYear (date_getMonth (now 1) + 1) ps;
          dailyPeriod = calculateDailyPeriod iz lunarDate (now 2) ps;
          hourlyPeriod = calculateHourlyPeriod iz lunarDate (now 3) ps
      in (currentMajor,
          \<lparr>major = majorPeriods, minor = minorPeriod, annual = annualPeriod,
           monthly = monthlyPeriod, daily = dailyPeriod, hourly = hourlyPeriod\<rparr>))"

definition currentMajor ::
  "'n IztroService \<Rightarrow> clock \<Rightarrow> Lunar \<Rightarrow> string \<Rightarrow> Palace list \<Rightarrow> LuckPeriod option" where
  "currentMajor iz now lunarDate g ps = fst (generateLuckPeriods_body iz now lunarDate g ps)"

definition generateLuckPeriods ::
  "'n IztroService \<Rightarrow> clock \<Rightarrow> Lunar \<Rightarrow> string \<Rightarrow> Palace list \<Rightarrow> LuckPeriods" where
  "generateLuckPeriods iz now lunarDate g ps = snd (generateLuckPeriods_body iz now lunarDate g ps)"

section \<open>Star classification\<close>

text \<open>
  \<open>m[k] = [...(m[k] || []), v]\<close>: an array is truthy, so \<open>||\<close> replaces only \<open>undefined\<close>.
\<close>

definition push_at :: "('k \<rightharpoonup> 'v list) \<Rightarrow> 'k \<Rightarrow> 'v \<Rightarrow> ('k \<rightharpoonup> 'v list)" where
  "push_at m k v = m(k \<mapsto> (case m k of None \<Rightarrow> [] | Some vs \<Rightarrow> vs) @ [v])"

text \<open>
  The three records \<open>mainStars\<close>, \<open>luckyStars\<close> and \<open>evilStars\<close> of \<open>organizeStarInfo\<close>,
  which the two nested \<open>forEach\<close> loops update.
\<close>

type_synonym star_maps =
  "(string \<rightharpoonup> string list) \<times> (string \<rightharpoonup> string list) \<times> (string \<rightharpoonup> string list)"

text \<open>The body of the inner loop, for one star of the palace named \<open>pname\<close>.\<close>

fun organize_star :: "'n IztroService \<Rightarrow> string \<Rightarrow> string \<Rightarrow> star_maps \<Rightarrow> star_maps" where
  "organize_star iz pname star (mainS, luckyS, evilS) =
     (if isMainStar iz star then (push_at mainS pname star, luckyS, evilS)
      else if isLuckyStar iz star then (mainS, push_at luckyS pname star, evilS)
      else if isEvilStar iz star then (mainS, luckyS, push_at evilS pname star)
      else (mainS, luckyS, evilS))"

text \<open>The body of the outer loop, for one palace.\<close>

definition organize_palace :: "'n IztroService \<Rightarrow> Palace \<Rightarrow> star_maps \<Rightarrow> star_maps" where
  "organize_palace iz palace acc = fold (organize_star iz (name palace)) (stars palace) acc"

definition organize_loops :: "'n IztroService \<Rightarrow> Palace list \<Rightarrow> star_maps" where
  "organize_loops iz ps = fold (organize_palace iz) ps (Map.empty, Map.empty, Map.empty)"

definition organizeStarInfo :: "'n IztroService \<Rightarrow> Palace list \<Rightarrow> StarInfo" where
  "organizeStarInfo iz ps =
     (case organize_loops iz ps of
        (mainS, luckyS, evilS) \<Rightarrow>
          \<lparr>mainStars = mainS, luckyStars = luckyS, evilStars = evilS,
           keyStarsLocation = getKeyStarsLocation iz ps\<rparr>)"

section \<open>Four transformations\<close>

definition calculateTransformations ::
  "'n IztroService \<Rightarrow> FourPillars \<Rightarrow> Palace list \<Rightarrow> TransformationInfo" where
  "calculateTransformations iz fp ps =
     (let yearStemTransformations = getTransformationsByStem iz (stem (fp_year fp));
          dayStemTransformations = getTransformationsByStem iz (stem (fp_day fp));
          transformationPalaces =
            findTransformationPalaces iz (yearStemTransformations @ dayStemTransformations) ps
      in \<lparr>yearStem =
            \<lparr>st_stem = stem (fp_year fp), st_transformations = yearStemTransformations\<rparr>,
          dayStem =
            \<lparr>st_stem = stem (fp_day fp), st_transformations = dayStemTransformations\<rparr>,
          tr_palaces = transformationPalaces\<rparr>)"

section \<open>Palace geometry and the transformation check\<close>

text \<open>\<open>getTripleSquarePalaces\<close> of the chart service hands the name to \<open>IztroService\<close>.\<close>

definition getTripleSquarePalaces :: "'n IztroService \<Rightarrow> string \<Rightarrow> js_error + TripleSquare" where
  "getTripleSquarePalaces iz palaceName = iztro_getTripleSquarePalaces iz palaceName"

text \<open>The constant \<open>mockPalaces\<close> of \<open>checkPalaceTransformation\<close>: names with star lists.\<close>

definition mockPalaces :: "(string \<times> string list) list" where
  "mockPalaces =
     [(ming_gong, [zi_wei, tian_fu]), (xiongdi_gong, [tian_ji]), (fuqi_gong, [tai_yang, tai_yin])]"

text \<open>
  The body of the inner loop: \<open>transformation && transformation.type === transformationType\<close>
  holds when a transformation was returned and its type is the one asked for.
\<close>

definition check_star ::
  "'n IztroService \<Rightarrow> string \<Rightarrow> string \<Rightarrow> string
     \<Rightarrow> TransformationDetail list \<Rightarrow> TransformationDetail list" where
  "check_star iz transformationType pname star ds =
     (case getStarTransformation iz star of
        None \<Rightarrow> ds
      | Some transformation \<Rightarrow>
          if star_tr_type transformation = transformationType
          then ds @ [\<lparr>detail_palace = pname, detail_star = star,
                        detail_transformation = star_tr_name transformation\<rparr>]
          else ds)"

text \<open>The body of the outer loop, for one mock palace.\<close>

definition check_palace ::
  "'n IztroService \<Rightarrow> string \<Rightarrow> string list \<Rightarrow> string \<times> string list
     \<Rightarrow> TransformationDetail list \<Rightarrow> TransformationDetail list" where
  "check_palace iz transformationType related palace ds =
     (if fst palace \<in> set related
      then fold (check_star iz transformationType (fst palace)) (snd palace) ds
      else ds)"

definition checkPalaceTransformation ::
  "'n IztroService \<Rightarrow> string \<Rightarrow> string \<Rightarrow> js_error + TransformationCheck" where
  "checkPalaceTransformation iz palaceName transformationType =
     (case getTripleSquarePalaces iz palaceName of
        Inl e \<Rightarrow> Inl e
      | Inr r \<Rightarrow>
          (let ds = fold (check_palace iz transformationType (allRelatedPalaces r)) mockPalaces []
           in Inr \<lparr>exists = (length ds > 0), details = ds\<rparr>))"

section \<open>Chart assembly\<close>

text \<open>The callback of \<open>ziweiData.palaces.map\<close> in step 8.\<close>

definition assemble_palace :: "Palace \<Rightarrow> ChartPalace" where
  "assemble_palace palace =
     \<lparr>name = name palace, position = position palace, stars = stars palace,
      isVoid = (length (stars palace) = 0),
      direction = getPalaceDirection (position palace),
      significance = getPalaceSignificance (name palace)\<rparr>"

text \<open>The argument object of the chart computation in step 4.\<close>

definition chart_input :: "'n JsRuntime \<Rightarrow> Lunar \<Rightarrow> CalculateZiweiDto \<Rightarrow> 'n ChartInput" where
  "chart_input js lunarDate dto =
     \<lparr>in_year = getYear lunarDate, in_month = getMonth lunarDate, in_day = getDay lunarDate,
      in_hour = parseInt js (at (split_on CHR '':'' (birthTime dto)) 0),
      in_minute = parseInt js (Some (or_else (at (split_on CHR '':'' (birthTime dto)) 1) ''0'')),
      in_gender = (if gender dto = ''male'' then ''man'' else ''woman'')\<rparr>"

text \<open>
  The \<open>try\<close> block of \<open>calculateZiweiChart\<close>. The first failing call ends it. The clock is
  read four times by \<open>generateLuckPeriods\<close> and a fifth time for \<open>calculationTime\<close>. Logging
  is not modelled.
\<close>

definition calculateZiweiChart_try ::
  "'n JsRuntime \<Rightarrow> 'n Tyme4ts \<Rightarrow> 'n Tyme4tsService \<Rightarrow> 'n IztroService \<Rightarrow> clock
     \<Rightarrow> CalculateZiweiDto \<Rightarrow> js_error + ZiweiChartResult" where
  "calculateZiweiChart_try js lib tyme iz now dto =
     (case convertToLunarDate js lib (birthDate dto) (dateType dto) of
        Inl e \<Rightarrow> Inl e
      | Inr lunarDate \<Rightarrow>
     (case calculateFourPillars js tyme lunarDate (birthTime dto) (birthPlace dto) of
        Inl e \<Rightarrow> Inl e
      | Inr fp \<Rightarrow>
     (let zod = getChineseZodiac tyme (getYear lunarDate);
          con = getConstellation tyme
                  (parseInt js (at (split_on CHR ''-'' (birthDate dto)) 1))
                  (parseInt js (at (split_on CHR ''-'' (birthDate dto)) 2))
      in case iztro_calculateZiweiChart iz (chart_input js lunarDate dto) of
           Inl e \<Rightarrow> Inl e
         | Inr ziweiData \<Rightarrow>
     (let lps = generateLuckPeriods iz now lunarDate (gender dto) (data_palaces ziweiData);
          sinfo = organizeStarInfo iz (data_palaces ziweiData);
          trs = calculateTransformations iz fp (data_palaces ziweiData)
      in Inr \<lparr>zodiac = zod, constellation = con, fourPillars = fp,
               palaces = map assemble_palace (data_palaces ziweiData),
               luckPeriods = lps, starsInfo = sinfo, transformations = trs,
               calculationTime = toISOString (now 4)\<rparr>))))"

text \<open>
  \<open>calculateZiweiChart\<close>: the \<open>catch\<close> clause throws a new \<open>Error\<close> whose message is the
  prefix \<^term>\<open>xingpan_jisuan_shibai\<close> followed by the message of the error caught.
\<close>

definition calculateZiweiChart ::
  "'n JsRuntime \<Rightarrow> 'n Tyme4ts \<Rightarrow> 'n Tyme4tsService \<Rightarrow> 'n IztroService \<Rightarrow> clock
     \<Rightarrow> CalculateZiweiDto \<Rightarrow> js_error + ZiweiChartResult" where
  "calculateZiweiChart js lib tyme iz now dto =
     (case calculateZiweiChart_try js lib tyme iz now dto of
        Inl error \<Rightarrow> Inl (Error (xingpan_jisuan_shibai @ message error))
      | Inr result \<Rightarrow> Inr result)"

section \<open>Almanac: suitable and avoided activities\<close>

definition getSuitabilityItems :: "Lunar \<Rightarrow> SuitabilityItems" where
  "getSuitabilityItems lunar =
     (let day = getDay lunar;
          month = getMonth lunar;
          suitable0 =
            [ji_si, qi_fu, qiu_si, kai_guang, chu_xing, jie_chu, fa_mu, ru_zhai, yi_xi, an_chuang];
          avoid0 = [jia_qu, an_zang, po_tu, xiu_fen, na_chu];
          suitable1 =
            (if month = 1 \<and> day = 1 then suitable0 @ [kai_ye, jian_cai, na_cai] else suitable0)
      in \<lparr>suitable = suitable1, avoid = avoid0\<rparr>)"

definition getSuitableAvoid ::
  "'n JsRuntime \<Rightarrow> 'n Tyme4ts \<Rightarrow> string \<Rightarrow> js_error + SuitableAvoid" where
  "getSuitableAvoid js lib dateStr =
     (let parts = map (Number js) (split_on CHR ''-'' dateStr);
          year = at parts 0; month = at parts 1; day = at parts 2
      in case solarToLunar lib year month day of
           Inl e \<Rightarrow> Inl e
         | Inr lunar \<Rightarrow>
             (let suitability = getSuitabilityItems lunar
              in Inr \<lparr>suitable = suitable suitability, avoid = avoid suitability,
                       date = dateStr\<rparr>))"

section \<open>Collaborator methods described by the specification\<close>

text \<open>
  Modelled from the spec: the canonical name of each position of the ring, which the chart
  service holds and the source does not contain. The specification gives the twelve names by
  the first two and the last; they are the keys of \<open>significanceMap\<close> in the source, in its
  order, and the name at position \<open>p\<close> of the ring (\<open>1..12\<close>) is the \<open>p\<close>-th of them.
\<close>

definition palaceNames :: "string list" where
  "palaceNames = map fst significanceMap"

text \<open>
  Modelled from the spec: the canonical name at a position \<open>p\<close> of the ring; it is used for
  \<open>p\<close> in \<open>1..12\<close> only.
\<close>

definition palaceAt :: "int \<Rightarrow> string" where
  "palaceAt p = palaceNames ! nat (p - 1)"

text \<open>The place of the first occurrence of a value in a list, counted from 0.\<close>

fun index_of :: "'a \<Rightarrow> 'a list \<Rightarrow> nat option" where
  "index_of x [] = None"
| "index_of x (y # ys) = (if x = y then Some 0 else map_option Suc (index_of x ys))"

text \<open>
  Modelled from the spec: \<open>IztroService.getTripleSquarePalaces\<close>, which the source calls and does
  not contain. The twelve palaces sit on a ring; the triplicate palaces of a palace are the two
  at cyclic offsets of +4 and -4 positions, its square palace is the one at offset +6,
  \<open>allRelatedPalaces\<close> is their union with the palace itself, without duplicates, and an unknown
  name fails with an \<open>InvalidPalaceError\<close>. Here \<open>i\<close> is the position counted from 0.
\<close>

definition spec_getTripleSquarePalaces :: "string \<Rightarrow> js_error + TripleSquare" where
  "spec_getTripleSquarePalaces palaceName =
     (case index_of palaceName palaceNames of
        None \<Rightarrow> Inl (Error ''InvalidPalaceError'')
      | Some i \<Rightarrow>
          (let triple = [palaceNames ! ((i + 4) mod 12), palaceNames ! ((i + 12 - 4) mod 12)];
               square = [palaceNames ! ((i + 6) mod 12)]
           in Inr \<lparr>originalPalace = palaceName, triplePalaces = triple, squarePalaces = square,
                    allRelatedPalaces = remdups (palaceName # triple @ square)\<rparr>))"

text \<open>
  Modelled from the spec: one step of the scan of \<open>IztroService.findTransformationPalaces\<close>,
  which the source calls and does not contain. A pair is recorded under the name of a palace whose
  star list holds its star.
\<close>

definition locate_in_palace ::
  "Transformation \<Rightarrow> Palace \<Rightarrow> (string \<rightharpoonup> Transformation list)
     \<Rightarrow> (string \<rightharpoonup> Transformation list)" where
  "locate_in_palace t palace m =
     (if tr_star t \<in> set (stars palace) then push_at m (name palace) t else m)"

text \<open>
  Modelled from the spec: the scan of all palaces for one (star, type) pair of
  \<open>IztroService.findTransformationPalaces\<close>.
\<close>

definition locate_transformation ::
  "Palace list \<Rightarrow> Transformation \<Rightarrow> (string \<rightharpoonup> Transformation list)
     \<Rightarrow> (string \<rightharpoonup> Transformation list)" where
  "locate_transformation ps t m = fold (locate_in_palace t) ps m"

text \<open>
  Modelled from the spec: \<open>IztroService.findTransformationPalaces\<close>, which the source calls and
  does not contain. For each (star, type) pair, in order, all palaces are scanned, and the pair is
  recorded under the name of each palace whose star list holds the star; a pair whose star is in
  no palace is recorded nowhere.
\<close>

definition spec_findTransformationPalaces ::
  "Transformation list \<Rightarrow> Palace list \<Rightarrow> (string \<rightharpoonup> Transformation list)" where
  "spec_findTransformationPalaces ts ps = fold (locate_transformation ps) ts Map.empty"

section \<open>Notions used in the statements\<close>

text \<open>
  The stars of the palaces named \<open>n\<close>, in the order in which the chart lists them.
\<close>

definition palace_stars :: "Palace list \<Rightarrow> string \<Rightarrow> string list" where
  "palace_stars ps n = concat (map stars (filter (\<lambda>p. name p = n) ps))"

text \<open>The values a record lists under a key; none when the key is absent.\<close>

definition listed :: "'v list option \<Rightarrow> 'v list" where
  "listed entry = (case entry of None \<Rightarrow> [] | Some vs \<Rightarrow> vs)"

text \<open>
  The entry of a key after the values \<open>vs\<close> have been pushed under it one by one, when it was
  \<open>old\<close> before: pushing nothing leaves an absent key absent.
\<close>

definition extend :: "'v list option \<Rightarrow> 'v list \<Rightarrow> 'v list option" where
  "extend old vs =
     (if vs = [] then old else Some ((case old of None \<Rightarrow> [] | Some us \<Rightarrow> us) @ vs))"

section \<open>Example collaborators\<close>

text \<open>
  Concrete collaborators, on which the theorems below are instantiated. The example runtime
  reads a non-empty string of decimal digits as the number it writes and every other string as
  \<open>NaN\<close>; the examples convert only strings of digits.
\<close>

datatype jsnum = NaN | Num int

definition digit_of :: "char \<Rightarrow> int option" where
  "digit_of c = map_option int (index_of c ''0123456789'')"

fun digits_value :: "string \<Rightarrow> int \<Rightarrow> jsnum" where
  "digits_value [] acc = Num acc"
| "digits_value (c # cs) acc =
     (case digit_of c of None \<Rightarrow> NaN | Some d \<Rightarrow> digits_value cs (10 * acc + d))"

definition decimal :: "string \<Rightarrow> jsnum" where
  "decimal s = (if s = [] then NaN else digits_value s 0)"

definition ex_js :: "jsnum JsRuntime" where
  "ex_js = \<lparr>Number = decimal, parseInt = (\<lambda>x. case x of None \<Rightarrow> NaN | Some v \<Rightarrow> decimal v)\<rparr>"

text \<open>
  An example calendar: it knows two solar dates, 1990-05-15 (the 21st day of the 4th lunar month)
  and 2024-02-10 (the first day of the first lunar month), and rejects every other solar date.
\<close>

definition ex_lib :: "jsnum Tyme4ts" where
  "ex_lib =
     \<lparr>solarToLunar = (\<lambda>y m d.
        if y = Some (Num 1990) \<and> m = Some (Num 5) \<and> d = Some (Num 15)
        then Inr \<lparr>getYear = 1990, getMonth = 4, getDay = 21\<rparr>
        else if y = Some (Num 2024) \<and> m = Some (Num 2) \<and> d = Some (Num 10)
        then Inr \<lparr>getYear = 2024, getMonth = 1, getDay = 1\<rparr>
        else Inl (Error ''illegal solar day'')),
      Lunar_fromYmd = (\<lambda>y m d.
        case (y, m, d) of
          (Some (Num a), Some (Num b), Some (Num c)) \<Rightarrow>
            Inr \<lparr>getYear = a, getMonth = b, getDay = c\<rparr>
        | _ \<Rightarrow> Inl (Error ''illegal lunar day''))\<rparr>"

text \<open>A calendar whose solar conversion always fails.\<close>

definition ex_lib_failing :: "jsnum Tyme4ts" where
  "ex_lib_failing = ex_lib\<lparr>solarToLunar := (\<lambda>y m d. Inl (Error ''out of range''))\<rparr>"

definition ex_pillars :: FourPillars where
  "ex_pillars =
     \<lparr>fp_year = \<lparr>stem = ''geng'', branch = ''wu''\<rparr>,
      fp_month = \<lparr>stem = ''xin'', branch = ''si''\<rparr>,
      fp_day = \<lparr>stem = ''jia'', branch = ''chen''\<rparr>,
      fp_hour = \<lparr>stem = ''wu'', branch = ''chen''\<rparr>\<rparr>"

definition ex_tyme :: "jsnum Tyme4tsService" where
  "ex_tyme =
     \<lparr>tyme_calculateFourPillars = (\<lambda>y m d h mi place. Inr ex_pillars),
      getChineseZodiac = (\<lambda>y. ''horse''),
      getConstellation = (\<lambda>m d. ''taurus'')\<rparr>"

text \<open>Three more star names: a lucky star, an evil star and a star of no category.\<close>

text \<open>\<open>zuo_fu\<close>: code points U+5DE6 U+8F85.\<close>

abbreviation zuo_fu :: string where
  "zuo_fu \<equiv>
     [CHR 0xE5, CHR 0xB7, CHR 0xA6, CHR 0xE8, CHR 0xBE, CHR 0x85]"

text \<open>\<open>qing_yang\<close>: code points U+64CE U+7F8A.\<close>

abbreviation qing_yang :: string where
  "qing_yang \<equiv>
     [CHR 0xE6, CHR 0x93, CHR 0x8E, CHR 0xE7, CHR 0xBE, CHR 0x8A]"

text \<open>\<open>tian_ma\<close>: code points U+5929 U+9A6C.\<close>

abbreviation tian_ma :: string where
  "tian_ma \<equiv>
     [CHR 0xE5, CHR 0xA4, CHR 0xA9, CHR 0xE9, CHR 0xA9, CHR 0xAC]"


text \<open>
  An example chart: the palace at position 1 holds two main stars, the palace at position 2 is
  void, and the palace at position 3 holds stars of every category.
\<close>

definition ex_palaces :: "Palace list" where
  "ex_palaces =
     [\<lparr>name = ming_gong, position = 1, stars = [zi_wei, tian_fu]\<rparr>,
      \<lparr>name = xiongdi_gong, position = 2, stars = []\<rparr>,
      \<lparr>name = fuqi_gong, position = 3, stars = [zuo_fu, tai_yang, tian_ma, qing_yang, tai_yin]\<rparr>]"

definition ex_majorPeriods :: "LuckPeriod list" where
  "ex_majorPeriods =
     [\<lparr>startAge = 4, endAge = 14, period_palace = ming_gong\<rparr>,
      \<lparr>startAge = 14, endAge = 24, period_palace = xiongdi_gong\<rparr>,
      \<lparr>startAge = 24, endAge = 34, period_palace = fuqi_gong\<rparr>,
      \<lparr>startAge = 34, endAge = 44, period_palace = zinv_gong\<rparr>]"

definition ex_iz :: "jsnum IztroService" where
  "ex_iz =
     \<lparr>iztro_calculateZiweiChart = (\<lambda>input. Inr \<lparr>data_palaces = ex_palaces\<rparr>),
      calculateMajorPeriods = (\<lambda>l g. ex_majorPeriods),
      calculateMinorPeriod = (\<lambda>l g y.
        \<lparr>startAge = y - getYear l, endAge = y - getYear l, period_palace = ming_gong\<rparr>),
      calculateAnnualPeriod = (\<lambda>l y ps.
        \<lparr>startAge = y - getYear l, endAge = y - getYear l, period_palace = fuqi_gong\<rparr>),
      calculateMonthlyPeriod = (\<lambda>l y m ps.
        \<lparr>startAge = y - getYear l, endAge = y - getYear l, period_palace = xiongdi_gong\<rparr>),
      calculateDailyPeriod = (\<lambda>l d ps.
        \<lparr>startAge = getFullYear d - getYear l, endAge = getFullYear d - getYear l,
         period_palace = ming_gong\<rparr>),
      calculateHourlyPeriod = (\<lambda>l d ps.
        \<lparr>startAge = getFullYear d - getYear l, endAge = getFullYear d - getYear l,
         period_palace = ming_gong\<rparr>),
      isMainStar = (\<lambda>s. s \<in> set [zi_wei, tian_fu, tian_ji, tai_yang, tai_yin]),
      isLuckyStar = (\<lambda>s. s \<in> set [zuo_fu, tai_yang]),
      isEvilStar = (\<lambda>s. s \<in> set [qing_yang]),
      getKeyStarsLocation = (\<lambda>ps k.
        if k = zi_wei then map_option name (find (\<lambda>p. zi_wei \<in> set (stars p)) ps) else None),
      getTransformationsByStem = (\<lambda>s.
        if s = ''geng''
        then [\<lparr>tr_star = tai_yang, tr_type = ''huaquan''\<rparr>,
              \<lparr>tr_star = tian_ji, tr_type = ''huaji''\<rparr>]
        else if s = ''jia'' then [\<lparr>tr_star = tai_yin, tr_type = ''huake''\<rparr>]
        else []),
      findTransformationPalaces = spec_findTransformationPalaces,
      iztro_getTripleSquarePalaces = spec_getTripleSquarePalaces,
      getStarTransformation = (\<lambda>s.
        if s = zi_wei then Some \<lparr>star_tr_type = ''huaquan'', star_tr_name = ''hua quan''\<rparr>
        else if s = tai_yin then Some \<lparr>star_tr_type = ''huake'', star_tr_name = ''hua ke''\<rparr>
        else None)\<rparr>"

text \<open>A chart service whose chart computation always fails.\<close>

definition ex_iz_failing :: "jsnum IztroService" where
  "ex_iz_failing = ex_iz\<lparr>iztro_calculateZiweiChart := (\<lambda>input. Inl (Error ''out of range''))\<rparr>"

text \<open>Two clocks: every reading of the first is in February 2024, of the second in 2034.\<close>

definition ex_now :: clock where
  "ex_now k =
     \<lparr>getTime = 1707523200000 + int k, getFullYear = 2024, date_getMonth = 1,
      toISOString = ''2024-02-10T00:00:00.000Z''\<rparr>"

definition ex_later :: clock where
  "ex_later k =
     \<lparr>getTime = 2023142400000 + int k, getFullYear = 2034, date_getMonth = 1,
      toISOString = ''2034-02-10T00:00:00.000Z''\<rparr>"

definition ex_dto :: CalculateZiweiDto where
  "ex_dto =
     \<lparr>birthDate = ''1990-05-15'', birthTime = ''08:30'', birthPlace = ''Beijing'',
      dateType = ''solar'', gender = ''male''\<rparr>"

definition ex_lunar :: Lunar where
  "ex_lunar = \<lparr>getYear = 1990, getMonth = 4, getDay = 21\<rparr>"

section \<open>Compass direction\<close>

lemma smod_nonneg:
  fixes k :: int
  assumes "0 \<le> k"
  shows "k smod 8 = k mod 8"
proof (cases "k = 0")
  case True
  then show ?thesis by (simp add: signed_modulo_int_def)
next
  case False
  with assms have "sgn k = 1" by simp
  with assms show ?thesis by (simp add: signed_modulo_int_def)
qed

lemma smod8_shift:
  fixes k :: int
  assumes "0 \<le> k"
  shows "(k + 8) smod 8 = k smod 8"
proof -
  have "(k + 8) smod 8 = (k + 8) mod 8"
    using assms by (intro smod_nonneg) simp
  also have "\<dots> = k mod 8"
    by simp
  also have "\<dots> = k smod 8"
    using assms by (simp add: smod_nonneg)
  finally show ?thesis .
qed

text \<open>
  C5, as stated, fails: on the ring of twelve positions, eight steps from position 5 lead to
  position 1, and the two positions have different directions.
\<close>

theorem getPalaceDirection_ring_counterexample:
  "ring12 5 8 = 1 \<and> getPalaceDirection 5 = zheng_nan \<and> getPalaceDirection 1 = zheng_bei
   \<and> getPalaceDirection 5 \<noteq> getPalaceDirection (ring12 5 8)"
  by (simp add: ring12_def getPalaceDirection_def directions_def signed_modulo_int_def)

text \<open>
  C5, amended: for every position \<open>p\<close> in \<open>1..4\<close>, eight steps on the ring lead to position
  \<open>p + 8\<close>, without wrap-around, and that position has the direction of \<open>p\<close>; in particular
  position 9 has the direction of position 1.
\<close>

theorem getPalaceDirection_period8:
  "(p \<in> {1..4} \<longrightarrow>
      ring12 p 8 = p + 8 \<and> getPalaceDirection (ring12 p 8) = getPalaceDirection p)
   \<and> getPalaceDirection 9 = getPalaceDirection 1"
proof
  show "p \<in> {1..4} \<longrightarrow>
      ring12 p 8 = p + 8 \<and> getPalaceDirection (ring12 p 8) = getPalaceDirection p"
  proof
    assume p: "p \<in> {1..4}"
    then have ring: "ring12 p 8 = p + 8"
      by (simp add: ring12_def)
    from p have "(p - 1 + 8) smod 8 = (p - 1) smod 8"
      by (intro smod8_shift) simp
    moreover have "p + 8 - 1 = p - 1 + 8"
      by simp
    ultimately have "getPalaceDirection (p + 8) = getPalaceDirection p"
      by (simp add: getPalaceDirection_def)
    with ring show "ring12 p 8 = p + 8 \<and> getPalaceDirection (ring12 p 8) = getPalaceDirection p"
      by simp
  qed
  show "getPalaceDirection 9 = getPalaceDirection 1"
    by (simp add: getPalaceDirection_def directions_def signed_modulo_int_def)
qed

theorem getPalaceDirection_period8_witness:
  "(4::int) \<in> {1..4} \<and> ring12 4 8 = 12 \<and> getPalaceDirection 12 = getPalaceDirection 4
   \<and> getPalaceDirection 4 = dong_nan"
  using getPalaceDirection_period8 [of 4]
  by (simp add: getPalaceDirection_def directions_def signed_modulo_int_def)

section \<open>Suitable and avoided activities of a date\<close>

text \<open>
  C10: for every date that the calendar converts, \<open>getSuitableAvoid\<close> returns the date string
  it was given, the fixed list of five avoided activities, and the fixed list of ten suitable
  activities, followed by three more exactly when the lunar month is 1 and the lunar day is 1.
\<close>

theorem getSuitableAvoid_items:
  assumes "solarToLunar lib (at (map (Number js) (split_on CHR ''-'' dateStr)) 0)
             (at (map (Number js) (split_on CHR ''-'' dateStr)) 1)
             (at (map (Number js) (split_on CHR ''-'' dateStr)) 2) = Inr lunar"
  shows "\<exists>r. getSuitableAvoid js lib dateStr = Inr r
           \<and> date r = dateStr
           \<and> avoid r = [jia_qu, an_zang, po_tu, xiu_fen, na_chu]
           \<and> suitable r =
               [ji_si, qi_fu, qiu_si, kai_guang, chu_xing, jie_chu, fa_mu, ru_zhai, yi_xi,
                an_chuang]
               @ (if getMonth lunar = 1 \<and> getDay lunar = 1
                  then [kai_ye, jian_cai, na_cai] else [])"
  using assms by (simp add: getSuitableAvoid_def getSuitabilityItems_def Let_def)

lemma ex_split_new_year: "split_on CHR ''-'' ''2024-02-10'' = [''2024'', ''02'', ''10'']"
  by simp

lemma ex_numbers_new_year:
  "decimal ''2024'' = Num 2024" "decimal ''02'' = Num 2" "decimal ''10'' = Num 10"
  by (simp_all add: decimal_def digit_of_def)

theorem getSuitableAvoid_items_witness:
  "getSuitableAvoid ex_js ex_lib ''2024-02-10'' =
     Inr \<lparr>suitable =
            [ji_si, qi_fu, qiu_si, kai_guang, chu_xing, jie_chu, fa_mu, ru_zhai, yi_xi,
             an_chuang, kai_ye, jian_cai, na_cai],
          avoid = [jia_qu, an_zang, po_tu, xiu_fen, na_chu],
          date = ''2024-02-10''\<rparr>"
proof -
  have conv:
    "solarToLunar ex_lib (at (map (Number ex_js) (split_on CHR ''-'' ''2024-02-10'')) 0)
       (at (map (Number ex_js) (split_on CHR ''-'' ''2024-02-10'')) 1)
       (at (map (Number ex_js) (split_on CHR ''-'' ''2024-02-10'')) 2)
     = Inr \<lparr>getYear = 2024, getMonth = 1, getDay = 1\<rparr>"
    unfolding ex_split_new_year by (simp add: ex_js_def ex_lib_def at_def ex_numbers_new_year)
  from getSuitableAvoid_items [OF conv] show ?thesis
    by auto
qed

section \<open>The assembled chart\<close>

text \<open>
  A chart is returned only when the three fallible steps succeeded; its palaces are the raw
  palaces of the chart computation, each with its three added attributes.
\<close>

lemma calculateZiweiChart_Inr:
  assumes "calculateZiweiChart js lib tyme iz now dto = Inr result"
  shows "\<exists>lunarDate fp ziweiData.
           convertToLunarDate js lib (birthDate dto) (dateType dto) = Inr lunarDate
         \<and> calculateFourPillars js tyme lunarDate (birthTime dto) (birthPlace dto) = Inr fp
         \<and> iztro_calculateZiweiChart iz (chart_input js lunarDate dto) = Inr ziweiData
         \<and> palaces result = map assemble_palace (data_palaces ziweiData)"
proof -
  from assms have t: "calculateZiweiChart_try js lib tyme iz now dto = Inr result"
    by (simp add: calculateZiweiChart_def split: sum.splits)
  then obtain lunarDate where
    l: "convertToLunarDate js lib (birthDate dto) (dateType dto) = Inr lunarDate"
    by (cases "convertToLunarDate js lib (birthDate dto) (dateType dto)")
       (simp_all add: calculateZiweiChart_try_def)
  from t l obtain fp where
    f: "calculateFourPillars js tyme lunarDate (birthTime dto) (birthPlace dto) = Inr fp"
    by (cases "calculateFourPillars js tyme lunarDate (birthTime dto) (birthPlace dto)")
       (simp_all add: calculateZiweiChart_try_def)
  from t l f obtain ziweiData where
    z: "iztro_calculateZiweiChart iz (chart_input js lunarDate dto) = Inr ziweiData"
    by (cases "iztro_calculateZiweiChart iz (chart_input js lunarDate dto)")
       (simp_all add: calculateZiweiChart_try_def Let_def)
  from t l f z have "palaces result = map assemble_palace (data_palaces ziweiData)"
    by (auto simp add: calculateZiweiChart_try_def Let_def)
  with l f z show ?thesis by blast
qed

text \<open>
  C6: in every chart that \<open>calculateZiweiChart\<close> returns, each palace is marked void if and
  only if its star list is empty; the palaces are those of the chart computation, in its order,
  with their names, positions and star lists unchanged.
\<close>

theorem calculateZiweiChart_isVoid:
  assumes "calculateZiweiChart js lib tyme iz now dto = Inr result"
  shows "(\<forall>p \<in> set (palaces result). isVoid p \<longleftrightarrow> stars p = [])
       \<and> (\<exists>input ziweiData. iztro_calculateZiweiChart iz input = Inr ziweiData
            \<and> map stars (palaces result) = map stars (data_palaces ziweiData)
            \<and> map name (palaces result) = map name (data_palaces ziweiData)
            \<and> map position (palaces result) = map position (data_palaces ziweiData))"
proof -
  from calculateZiweiChart_Inr [OF assms] obtain input ziweiData where
    zd: "iztro_calculateZiweiChart iz input = Inr ziweiData"
    and ps: "palaces result = map assemble_palace (data_palaces ziweiData)"
    by blast
  have "\<forall>p \<in> set (palaces result). isVoid p \<longleftrightarrow> stars p = []"
    unfolding ps by (auto simp: assemble_palace_def)
  moreover have "map stars (palaces result) = map stars (data_palaces ziweiData)"
    "map name (palaces result) = map name (data_palaces ziweiData)"
    "map position (palaces result) = map position (data_palaces ziweiData)"
    unfolding ps by (simp_all add: assemble_palace_def comp_def)
  ultimately show ?thesis using zd by blast
qed

lemma ex_split_birth:
  "split_on CHR ''-'' ''1990-05-15'' = [''1990'', ''05'', ''15'']"
  "split_on CHR '':'' ''08:30'' = [''08'', ''30'']"
  by simp_all

lemma ex_numbers_birth:
  "decimal ''1990'' = Num 1990" "decimal ''05'' = Num 5" "decimal ''15'' = Num 15"
  "decimal ''08'' = Num 8" "decimal ''30'' = Num 30"
  by (simp_all add: decimal_def digit_of_def)

lemma ex_convert:
  "convertToLunarDate ex_js ex_lib (birthDate ex_dto) (dateType ex_dto) = Inr ex_lunar"
  by (simp add: convertToLunarDate_def ex_dto_def ex_split_birth ex_js_def ex_lib_def at_def
      ex_numbers_birth ex_lunar_def)

lemma ex_fourPillars:
  "calculateFourPillars ex_js ex_tyme ex_lunar (birthTime ex_dto) (birthPlace ex_dto)
   = Inr ex_pillars"
  by (simp add: calculateFourPillars_def ex_tyme_def)

lemma ex_chart_palaces:
  "\<exists>r. calculateZiweiChart ex_js ex_lib ex_tyme ex_iz ex_now ex_dto = Inr r
     \<and> palaces r = map assemble_palace ex_palaces"
  by (simp add: calculateZiweiChart_def calculateZiweiChart_try_def ex_convert ex_fourPillars
      ex_iz_def)

theorem calculateZiweiChart_isVoid_witness:
  "\<exists>r. calculateZiweiChart ex_js ex_lib ex_tyme ex_iz ex_now ex_dto = Inr r
     \<and> map isVoid (palaces r) = [False, True, False]
     \<and> (\<forall>p \<in> set (palaces r). isVoid p \<longleftrightarrow> stars p = [])"
proof -
  from ex_chart_palaces obtain r where
    r: "calculateZiweiChart ex_js ex_lib ex_tyme ex_iz ex_now ex_dto = Inr r"
    and ps: "palaces r = map assemble_palace ex_palaces"
    by blast
  have v: "map isVoid (palaces r) = [False, True, False]"
    unfolding ps by (simp add: ex_palaces_def assemble_palace_def)
  from calculateZiweiChart_isVoid [OF r]
  have "\<forall>p \<in> set (palaces r). isVoid p \<longleftrightarrow> stars p = []"
    by (rule conjunct1)
  with r v show ?thesis
    by (intro exI [of _ r] conjI)
qed

section \<open>Failures of the collaborators\<close>

text \<open>
  C7, as stated, fails: the message of the error thrown does not identify the stage. A failure of
  the calendar conversion and a failure of the chart computation that carry the same message
  give the same error.
\<close>

theorem calculateZiweiChart_stage_counterexample:
  "convertToLunarDate ex_js ex_lib_failing (birthDate ex_dto) (dateType ex_dto)
     = Inl (Error ''out of range'')
   \<and> convertToLunarDate ex_js ex_lib (birthDate ex_dto) (dateType ex_dto) = Inr ex_lunar
   \<and> calculateFourPillars ex_js ex_tyme ex_lunar (birthTime ex_dto) (birthPlace ex_dto)
     = Inr ex_pillars
   \<and> iztro_calculateZiweiChart ex_iz_failing (chart_input ex_js ex_lunar ex_dto)
     = Inl (Error ''out of range'')
   \<and> calculateZiweiChart ex_js ex_lib_failing ex_tyme ex_iz ex_now ex_dto
     = Inl (Error (xingpan_jisuan_shibai @ ''out of range''))
   \<and> calculateZiweiChart ex_js ex_lib ex_tyme ex_iz_failing ex_now ex_dto
     = Inl (Error (xingpan_jisuan_shibai @ ''out of range''))"
proof -
  have a: "convertToLunarDate ex_js ex_lib_failing (birthDate ex_dto) (dateType ex_dto)
     = Inl (Error ''out of range'')"
    by (simp add: convertToLunarDate_def ex_dto_def ex_lib_failing_def)
  have b: "iztro_calculateZiweiChart ex_iz_failing (chart_input ex_js ex_lunar ex_dto)
     = Inl (Error ''out of range'')"
    by (simp add: ex_iz_failing_def)
  have c: "calculateZiweiChart ex_js ex_lib_failing ex_tyme ex_iz ex_now ex_dto
     = Inl (Error (xingpan_jisuan_shibai @ ''out of range''))"
    by (simp add: calculateZiweiChart_def calculateZiweiChart_try_def a)
  have d: "calculateZiweiChart ex_js ex_lib ex_tyme ex_iz_failing ex_now ex_dto
     = Inl (Error (xingpan_jisuan_shibai @ ''out of range''))"
    by (simp add: calculateZiweiChart_def calculateZiweiChart_try_def ex_convert ex_fourPillars b)
  from a b c d ex_convert ex_fourPillars show ?thesis
    by (intro conjI)
qed

text \<open>
  C7, amended: a failure of the calendar conversion, of the four-pillars computation or of the
  chart computation is neither swallowed nor retried: \<open>calculateZiweiChart\<close> fails with a new
  error whose message is the fixed prefix \<^term>\<open>xingpan_jisuan_shibai\<close> followed by the message
  of the failure. The prefix is the same for every stage.
\<close>

theorem calculateZiweiChart_wraps_failure:
  "(convertToLunarDate js lib (birthDate dto) (dateType dto) = Inl e
      \<longrightarrow> calculateZiweiChart js lib tyme iz now dto
            = Inl (Error (xingpan_jisuan_shibai @ message e)))
   \<and> (convertToLunarDate js lib (birthDate dto) (dateType dto) = Inr lunarDate
      \<and> calculateFourPillars js tyme lunarDate (birthTime dto) (birthPlace dto) = Inl e
      \<longrightarrow> calculateZiweiChart js lib tyme iz now dto
            = Inl (Error (xingpan_jisuan_shibai @ message e)))
   \<and> (convertToLunarDate js lib (birthDate dto) (dateType dto) = Inr lunarDate
      \<and> calculateFourPillars js tyme lunarDate (birthTime dto) (birthPlace dto) = Inr fp
      \<and> iztro_calculateZiweiChart iz (chart_input js lunarDate dto) = Inl e
      \<longrightarrow> calculateZiweiChart js lib tyme iz now dto
            = Inl (Error (xingpan_jisuan_shibai @ message e)))
   \<and> (calculateZiweiChart js lib tyme iz now dto = Inl err
      \<longrightarrow> take (length xingpan_jisuan_shibai) (message err) = xingpan_jisuan_shibai)"
proof (intro conjI impI)
  assume "convertToLunarDate js lib (birthDate dto) (dateType dto) = Inl e"
  then show "calculateZiweiChart js lib tyme iz now dto
            = Inl (Error (xingpan_jisuan_shibai @ message e))"
    by (simp add: calculateZiweiChart_def calculateZiweiChart_try_def)
next
  assume "convertToLunarDate js lib (birthDate dto) (dateType dto) = Inr lunarDate
      \<and> calculateFourPillars js tyme lunarDate (birthTime dto) (birthPlace dto) = Inl e"
  then show "calculateZiweiChart js lib tyme iz now dto
            = Inl (Error (xingpan_jisuan_shibai @ message e))"
    by (simp add: calculateZiweiChart_def calculateZiweiChart_try_def)
next
  assume "convertToLunarDate js lib (birthDate dto) (dateType dto) = Inr lunarDate
      \<and> calculateFourPillars js tyme lunarDate (birthTime dto) (birthPlace dto) = Inr fp
      \<and> iztro_calculateZiweiChart iz (chart_input js lunarDate dto) = Inl e"
  then show "calculateZiweiChart js lib tyme iz now dto
            = Inl (Error (xingpan_jisuan_shibai @ message e))"
    by (simp add: calculateZiweiChart_def calculateZiweiChart_try_def)
next
  assume "calculateZiweiChart js lib tyme iz now dto = Inl err"
  then obtain e where "err = Error (xingpan_jisuan_shibai @ message e)"
    by (auto simp: calculateZiweiChart_def split: sum.splits)
  then show "take (length xingpan_jisuan_shibai) (message err) = xingpan_jisuan_shibai"
    by simp
qed

theorem calculateZiweiChart_wraps_failure_witness:
  "convertToLunarDate ex_js ex_lib_failing (birthDate ex_dto) (dateType ex_dto)
     = Inl (Error ''out of range'')
   \<and> calculateZiweiChart ex_js ex_lib_failing ex_tyme ex_iz ex_now ex_dto
     = Inl (Error (xingpan_jisuan_shibai @ ''out of range''))"
proof -
  have a: "convertToLunarDate ex_js ex_lib_failing (birthDate ex_dto) (dateType ex_dto)
     = Inl (Error ''out of range'')"
    by (simp add: convertToLunarDate_def ex_dto_def ex_lib_failing_def)
  from calculateZiweiChart_wraps_failure
    [of ex_js ex_lib_failing ex_dto "Error ''out of range''" ex_tyme ex_iz ex_now]
  have "calculateZiweiChart ex_js ex_lib_failing ex_tyme ex_iz ex_now ex_dto
     = Inl (Error (xingpan_jisuan_shibai @ message (Error ''out of range'')))"
    using a by blast
  with a show ?thesis by simp
qed

section \<open>The active major period\<close>

text \<open>The value of the local constant \<open>currentMajor\<close>, with the body unfolded.\<close>

lemma currentMajor_eq:
  "currentMajor iz now lunarDate g ps =
     (case find (\<lambda>period. getFullYear (now 0) - getYear lunarDate \<ge> startAge period
                         \<and> getFullYear (now 0) - getYear lunarDate < endAge period)
             (calculateMajorPeriods iz lunarDate (if g = ''male'' then ''man'' else ''woman'')) of
        Some period \<Rightarrow> Some period
      | None \<Rightarrow> at (calculateMajorPeriods iz lunarDate (if g = ''male'' then ''man'' else ''woman'')) 0)"
  by (simp add: currentMajor_def generateLuckPeriods_body_def Let_def)


lemma ex_age: "getFullYear (ex_now 0) - getYear ex_lunar = 34"
  "getFullYear (ex_later 0) - getYear ex_lunar = 44"
  by (simp_all add: ex_now_def ex_later_def ex_lunar_def)

lemma ex_majors: "calculateMajorPeriods ex_iz l g = ex_majorPeriods"
  by (simp add: ex_iz_def)




section \<open>Luck periods and the wall clock\<close>

text \<open>
  C8, as stated, fails: \<open>generateLuckPeriods\<close> has no as-of argument and reads the wall clock
  when it is called. With the same birth date, gender and palaces, a call in 2024 and a call in
  2034 select different active major periods, and the annual marker of the example chart
  service, which is computed from the current year, differs too.
\<close>

theorem generateLuckPeriods_clock_counterexample:
  "currentMajor ex_iz ex_now ex_lunar ''male'' ex_palaces
     = Some \<lparr>startAge = 34, endAge = 44, period_palace = zinv_gong\<rparr>
   \<and> currentMajor ex_iz ex_later ex_lunar ''male'' ex_palaces
     = Some \<lparr>startAge = 4, endAge = 14, period_palace = ming_gong\<rparr>
   \<and> annual (generateLuckPeriods ex_iz ex_now ex_lunar ''male'' ex_palaces)
     \<noteq> annual (generateLuckPeriods ex_iz ex_later ex_lunar ''male'' ex_palaces)"
proof -
  have "currentMajor ex_iz ex_now ex_lunar ''male'' ex_palaces
     = Some \<lparr>startAge = 34, endAge = 44, period_palace = zinv_gong\<rparr>"
    by (simp add: currentMajor_eq ex_age ex_majors) (simp add: ex_majorPeriods_def)
  moreover have "currentMajor ex_iz ex_later ex_lunar ''male'' ex_palaces
     = Some \<lparr>startAge = 4, endAge = 14, period_palace = ming_gong\<rparr>"
    by (simp add: currentMajor_eq ex_age ex_majors) (simp add: ex_majorPeriods_def at_def ex_majors)
  moreover have "annual (generateLuckPeriods ex_iz ex_now ex_lunar ''male'' ex_palaces)
     \<noteq> annual (generateLuckPeriods ex_iz ex_later ex_lunar ''male'' ex_palaces)"
    by (simp add: generateLuckPeriods_def generateLuckPeriods_body_def Let_def ex_iz_def
        ex_now_def ex_later_def ex_lunar_def)
  ultimately show ?thesis by (intro conjI)
qed

text \<open>
  C8, amended: the periods are a function of the birth date, the gender, the palaces and the
  clock readings of the call. Two calls with the same arguments return the same active major
  period and the same periods whenever the first clock readings have the same year, the second
  the same month, and the third and the fourth are equal.
\<close>

theorem generateLuckPeriods_clock_readings:
  assumes "getFullYear (now1 0) = getFullYear (now2 0)"
    and "date_getMonth (now1 1) = date_getMonth (now2 1)"
    and "now1 2 = now2 2"
    and "now1 3 = now2 3"
  shows "currentMajor iz now1 lunarDate g ps = currentMajor iz now2 lunarDate g ps
       \<and> generateLuckPeriods iz now1 lunarDate g ps = generateLuckPeriods iz now2 lunarDate g ps"
proof -
  have "generateLuckPeriods_body iz now1 lunarDate g ps
      = generateLuckPeriods_body iz now2 lunarDate g ps"
    unfolding generateLuckPeriods_body_def by (simp only: assms)
  then show ?thesis
    by (simp add: currentMajor_def generateLuckPeriods_def)
qed

theorem generateLuckPeriods_clock_readings_witness:
  "ex_now 4 \<noteq> ex_later 4
   \<and> generateLuckPeriods ex_iz ex_now ex_lunar ''male'' ex_palaces
     = generateLuckPeriods ex_iz (\<lambda>k. if k < 4 then ex_now k else ex_later k) ex_lunar ''male''
         ex_palaces"
proof -
  have "ex_now 4 \<noteq> ex_later 4"
    by (simp add: ex_now_def ex_later_def)
  moreover from generateLuckPeriods_clock_readings
     [where ?now1.0 = ex_now and ?now2.0 = "\<lambda>k. if k < 4 then ex_now k else ex_later k"
        and iz = ex_iz and lunarDate = ex_lunar and g = "''male''" and ps = ex_palaces]
  have "generateLuckPeriods ex_iz ex_now ex_lunar ''male'' ex_palaces
     = generateLuckPeriods ex_iz (\<lambda>k. if k < 4 then ex_now k else ex_later k) ex_lunar ''male''
         ex_palaces"
    by simp
  ultimately show ?thesis by (intro conjI)
qed

section \<open>The transformation check\<close>

text \<open>
  Every detail that the two loops of \<open>checkPalaceTransformation\<close> add names a palace of the
  list they scan that is among the related palaces, and a star of that palace.
\<close>

lemma check_star_cases:
  "check_star iz ty pname star ds = ds \<or>
   (\<exists>t. getStarTransformation iz star = Some t \<and> star_tr_type t = ty \<and>
     check_star iz ty pname star ds =
       ds @ [\<lparr>detail_palace = pname, detail_star = star,
               detail_transformation = star_tr_name t\<rparr>])"
  by (simp add: check_star_def split: option.splits)

lemma fold_check_star_mem:
  assumes "d \<in> set (fold (check_star iz ty pname) ss ds)"
  shows "d \<in> set ds \<or> (detail_palace d = pname \<and> detail_star d \<in> set ss)"
  using assms
proof (induction ss arbitrary: ds)
  case Nil
  then show ?case by simp
next
  case (Cons s ss)
  from Cons.prems have "d \<in> set (fold (check_star iz ty pname) ss (check_star iz ty pname s ds))"
    by simp
  from Cons.IH [OF this]
  consider "d \<in> set (check_star iz ty pname s ds)"
    | "detail_palace d = pname \<and> detail_star d \<in> set ss"
    by blast
  then show ?case
  proof cases
    case 1
    with check_star_cases [of iz ty pname s ds] show ?thesis
      by auto
  next
    case 2
    then show ?thesis by simp
  qed
qed

lemma fold_check_palace_mem:
  assumes "d \<in> set (fold (check_palace iz ty related) ps ds)"
  shows "d \<in> set ds \<or>
    (\<exists>p \<in> set ps. fst p \<in> set related \<and> detail_palace d = fst p \<and> detail_star d \<in> set (snd p))"
  using assms
proof (induction ps arbitrary: ds)
  case Nil
  then show ?case by simp
next
  case (Cons p ps)
  from Cons.prems
  have "d \<in> set (fold (check_palace iz ty related) ps (check_palace iz ty related p ds))"
    by simp
  from Cons.IH [OF this]
  consider "d \<in> set (check_palace iz ty related p ds)"
    | "\<exists>q \<in> set ps. fst q \<in> set related \<and> detail_palace d = fst q \<and> detail_star d \<in> set (snd q)"
    by blast
  then show ?case
  proof cases
    case 1
    show ?thesis
    proof (cases "fst p \<in> set related")
      case True
      with 1 have "d \<in> set (fold (check_star iz ty (fst p)) (snd p) ds)"
        by (simp add: check_palace_def)
      from fold_check_star_mem [OF this] True show ?thesis
        by auto
    next
      case False
      with 1 show ?thesis by (simp add: check_palace_def)
    qed
  next
    case 2
    then show ?thesis by auto
  qed
qed

lemma check_star_cong:
  assumes "getStarTransformation iz1 star = getStarTransformation iz2 star"
  shows "check_star iz1 ty pname star = check_star iz2 ty pname star"
  using assms by (simp add: check_star_def fun_eq_iff)

lemma check_palace_cong:
  assumes "\<forall>star \<in> set (snd p). getStarTransformation iz1 star = getStarTransformation iz2 star"
  shows "check_palace iz1 ty related p = check_palace iz2 ty related p"
proof -
  have "fold (check_star iz1 ty (fst p)) (snd p) ds = fold (check_star iz2 ty (fst p)) (snd p) ds"
    for ds
    using assms by (intro fold_cong refl check_star_cong) simp
  then show ?thesis
    by (simp add: check_palace_def fun_eq_iff)
qed

lemma mock_stars:
  "(\<Union>p \<in> set mockPalaces. set (snd p)) = {zi_wei, tian_fu, tian_ji, tai_yang, tai_yin}"
  by (auto simp: mockPalaces_def)

text \<open>
  C9: \<open>checkPalaceTransformation\<close> takes no chart. Its result is determined by the palace name,
  the transformation type and two lookups of the chart service, the related palaces of the name
  and the transformations of the five stars of the mock chart; nothing else of the chart service,
  in particular no chart it computes, has any influence. Every detail names one of the three mock
  palaces, related to the queried palace, and one of its fixed stars; so \<open>exists\<close> is true only
  when the related palaces meet the three mock palace names.
\<close>

theorem checkPalaceTransformation_mock:
  "(iztro_getTripleSquarePalaces iz1 palaceName = iztro_getTripleSquarePalaces iz2 palaceName
      \<and> (\<forall>star \<in> {zi_wei, tian_fu, tian_ji, tai_yang, tai_yin}.
           getStarTransformation iz1 star = getStarTransformation iz2 star)
    \<longrightarrow> checkPalaceTransformation iz1 palaceName ty = checkPalaceTransformation iz2 palaceName ty)
   \<and> (checkPalaceTransformation iz1 palaceName ty = Inr r
    \<longrightarrow> (\<exists>rel. getTripleSquarePalaces iz1 palaceName = Inr rel
          \<and> (exists r \<longrightarrow>
               set (allRelatedPalaces rel) \<inter> {ming_gong, xiongdi_gong, fuqi_gong} \<noteq> {})
          \<and> (\<forall>d \<in> set (details r).
               detail_palace d \<in> set (allRelatedPalaces rel)
               \<and> (detail_palace d, detail_star d)
                   \<in> {(ming_gong, zi_wei), (ming_gong, tian_fu), (xiongdi_gong, tian_ji),
                      (fuqi_gong, tai_yang), (fuqi_gong, tai_yin)})))"
proof (intro conjI impI)
  assume a: "iztro_getTripleSquarePalaces iz1 palaceName = iztro_getTripleSquarePalaces iz2 palaceName
      \<and> (\<forall>star \<in> {zi_wei, tian_fu, tian_ji, tai_yang, tai_yin}.
           getStarTransformation iz1 star = getStarTransformation iz2 star)"
  have "check_palace iz1 ty related p = check_palace iz2 ty related p"
    if "p \<in> set mockPalaces" for p related
  proof (rule check_palace_cong)
    from that mock_stars have "set (snd p) \<subseteq> {zi_wei, tian_fu, tian_ji, tai_yang, tai_yin}"
      by blast
    with a show "\<forall>star \<in> set (snd p). getStarTransformation iz1 star = getStarTransformation iz2 star"
      by blast
  qed
  then have "fold (check_palace iz1 ty related) mockPalaces [] =
             fold (check_palace iz2 ty related) mockPalaces []" for related
    by (intro fold_cong refl) simp
  with a show "checkPalaceTransformation iz1 palaceName ty = checkPalaceTransformation iz2 palaceName ty"
    by (simp add: checkPalaceTransformation_def getTripleSquarePalaces_def split: sum.splits)
next
  assume r: "checkPalaceTransformation iz1 palaceName ty = Inr r"
  then obtain rel where rel: "getTripleSquarePalaces iz1 palaceName = Inr rel"
    by (cases "getTripleSquarePalaces iz1 palaceName") (simp_all add: checkPalaceTransformation_def)
  let ?ds = "fold (check_palace iz1 ty (allRelatedPalaces rel)) mockPalaces []"
  from r rel have ex: "exists r \<longleftrightarrow> ?ds \<noteq> []" and ds: "details r = ?ds"
    by (auto simp: checkPalaceTransformation_def Let_def)
  have mem: "detail_palace d \<in> set (allRelatedPalaces rel)
               \<and> (detail_palace d, detail_star d)
                   \<in> {(ming_gong, zi_wei), (ming_gong, tian_fu), (xiongdi_gong, tian_ji),
                      (fuqi_gong, tai_yang), (fuqi_gong, tai_yin)}"
    if "d \<in> set ?ds" for d
  proof -
    from fold_check_palace_mem [OF that] obtain p where
      p: "p \<in> set mockPalaces" "fst p \<in> set (allRelatedPalaces rel)"
         "detail_palace d = fst p" "detail_star d \<in> set (snd p)"
      by auto
    from p(1) have "p = (ming_gong, [zi_wei, tian_fu]) \<or> p = (xiongdi_gong, [tian_ji])
        \<or> p = (fuqi_gong, [tai_yang, tai_yin])"
      by (simp add: mockPalaces_def)
    with p(2,3,4) show ?thesis
      by auto
  qed
  have inter: "set (allRelatedPalaces rel) \<inter> {ming_gong, xiongdi_gong, fuqi_gong} \<noteq> {}"
    if "exists r"
  proof -
    from that ex obtain d where "d \<in> set ?ds"
      by (cases ?ds) auto
    from mem [OF this] show ?thesis
      by auto
  qed
  from rel inter mem ds
  show "\<exists>rel. getTripleSquarePalaces iz1 palaceName = Inr rel
          \<and> (exists r \<longrightarrow>
               set (allRelatedPalaces rel) \<inter> {ming_gong, xiongdi_gong, fuqi_gong} \<noteq> {})
          \<and> (\<forall>d \<in> set (details r).
               detail_palace d \<in> set (allRelatedPalaces rel)
               \<and> (detail_palace d, detail_star d)
                   \<in> {(ming_gong, zi_wei), (ming_gong, tian_fu), (xiongdi_gong, tian_ji),
                      (fuqi_gong, tai_yang), (fuqi_gong, tai_yin)})"
    by (intro exI [of _ rel] conjI impI ballI) simp_all
qed


lemma ex_star_transformation:
  "getStarTransformation ex_iz_failing = getStarTransformation ex_iz"
  "iztro_getTripleSquarePalaces ex_iz_failing = iztro_getTripleSquarePalaces ex_iz"
  by (simp_all add: ex_iz_failing_def)

lemma ex_related_caibo:
  "iztro_getTripleSquarePalaces ex_iz caibo_gong =
     Inr \<lparr>originalPalace = caibo_gong, triplePalaces = [guanlu_gong, ming_gong],
          squarePalaces = [fude_gong],
          allRelatedPalaces = [caibo_gong, guanlu_gong, ming_gong, fude_gong]\<rparr>"
  by (simp add: ex_iz_def spec_getTripleSquarePalaces_def palaceNames_def significanceMap_def
      Let_def)

lemma ex_check_caibo:
  "checkPalaceTransformation ex_iz caibo_gong ''huaquan'' =
     Inr \<lparr>exists = True,
          details = [\<lparr>detail_palace = ming_gong, detail_star = zi_wei,
                      detail_transformation = ''hua quan''\<rparr>]\<rparr>"
proof -
  have t: "getStarTransformation ex_iz zi_wei
             = Some \<lparr>star_tr_type = ''huaquan'', star_tr_name = ''hua quan''\<rparr>"
    "getStarTransformation ex_iz tian_fu = None"
    by (simp_all add: ex_iz_def)
  show ?thesis
    by (simp add: checkPalaceTransformation_def getTripleSquarePalaces_def ex_related_caibo
        mockPalaces_def check_palace_def check_star_def t)
qed

theorem checkPalaceTransformation_mock_witness:
  "checkPalaceTransformation ex_iz_failing caibo_gong ''huaquan''
     = checkPalaceTransformation ex_iz caibo_gong ''huaquan''
   \<and> checkPalaceTransformation ex_iz caibo_gong ''huaquan'' =
     Inr \<lparr>exists = True,
          details = [\<lparr>detail_palace = ming_gong, detail_star = zi_wei,
                      detail_transformation = ''hua quan''\<rparr>]\<rparr>
   \<and> ming_gong \<in> set [caibo_gong, guanlu_gong, ming_gong, fude_gong]
         \<inter> {ming_gong, xiongdi_gong, fuqi_gong}"
proof -
  from checkPalaceTransformation_mock
     [where ?iz1.0 = ex_iz_failing and ?iz2.0 = ex_iz and palaceName = caibo_gong
        and ty = "''huaquan''"]
  have "checkPalaceTransformation ex_iz_failing caibo_gong ''huaquan''
     = checkPalaceTransformation ex_iz caibo_gong ''huaquan''"
    by (simp add: ex_star_transformation)
  with ex_check_caibo show ?thesis
    by simp
qed

section \<open>Star classification\<close>

text \<open>Pushing values under keys, and what the two loops of \<open>organizeStarInfo\<close> compute.\<close>

lemma extend_Nil: "extend old [] = old"
  by (simp add: extend_def)

lemma extend_extend: "extend (extend old us) vs = extend old (us @ vs)"
  by (simp add: extend_def split: option.splits)

lemma extend_None: "extend None vs = (if vs = [] then None else Some vs)"
  by (simp add: extend_def)

lemma push_at_apply:
  "push_at m k v k' = (if k' = k then extend (m k) [v] else m k')"
  by (simp add: push_at_def extend_def)

lemma fold_organize_star:
  "fold (organize_star iz pname) ss (m, l, e) =
     (\<lambda>n. if n = pname then extend (m n) (filter (isMainStar iz) ss) else m n,
      \<lambda>n. if n = pname
          then extend (l n) (filter (\<lambda>s. \<not> isMainStar iz s \<and> isLuckyStar iz s) ss) else l n,
      \<lambda>n. if n = pname
          then extend (e n)
                 (filter (\<lambda>s. \<not> isMainStar iz s \<and> \<not> isLuckyStar iz s \<and> isEvilStar iz s) ss)
          else e n)"
proof (induction ss arbitrary: m l e)
  case Nil
  then show ?case by (simp add: fun_eq_iff extend_Nil)
next
  case (Cons s ss)
  show ?case
    by (simp add: Cons.IH push_at_apply extend_extend extend_Nil fun_eq_iff)
qed

lemma fold_organize_palace:
  "fold (organize_palace iz) ps (m, l, e) =
     (\<lambda>n. extend (m n) (filter (isMainStar iz) (palace_stars ps n)),
      \<lambda>n. extend (l n)
            (filter (\<lambda>s. \<not> isMainStar iz s \<and> isLuckyStar iz s) (palace_stars ps n)),
      \<lambda>n. extend (e n)
            (filter (\<lambda>s. \<not> isMainStar iz s \<and> \<not> isLuckyStar iz s \<and> isEvilStar iz s)
               (palace_stars ps n)))"
proof (induction ps arbitrary: m l e)
  case Nil
  then show ?case by (simp add: palace_stars_def extend_Nil)
next
  case (Cons p ps)
  have step: "organize_palace iz p (m, l, e) =
     (\<lambda>n. if n = name p then extend (m n) (filter (isMainStar iz) (stars p)) else m n,
      \<lambda>n. if n = name p
          then extend (l n) (filter (\<lambda>s. \<not> isMainStar iz s \<and> isLuckyStar iz s) (stars p))
          else l n,
      \<lambda>n. if n = name p
          then extend (e n)
                 (filter (\<lambda>s. \<not> isMainStar iz s \<and> \<not> isLuckyStar iz s \<and> isEvilStar iz s)
                    (stars p))
          else e n)"
    by (simp add: organize_palace_def fold_organize_star)
  have "fold (organize_palace iz) (p # ps) (m, l, e) =
        fold (organize_palace iz) ps (organize_palace iz p (m, l, e))"
    by simp
  also have "\<dots> =
     (\<lambda>n. extend (m n) (filter (isMainStar iz) (palace_stars (p # ps) n)),
      \<lambda>n. extend (l n)
            (filter (\<lambda>s. \<not> isMainStar iz s \<and> isLuckyStar iz s) (palace_stars (p # ps) n)),
      \<lambda>n. extend (e n)
            (filter (\<lambda>s. \<not> isMainStar iz s \<and> \<not> isLuckyStar iz s \<and> isEvilStar iz s)
               (palace_stars (p # ps) n)))"
    unfolding step Cons.IH
    by (auto simp: extend_extend extend_Nil palace_stars_def fun_eq_iff)
  finally show ?case .
qed

lemma organize_loops_eq:
  "organize_loops iz ps =
     (\<lambda>n. extend None (filter (isMainStar iz) (palace_stars ps n)),
      \<lambda>n. extend None
            (filter (\<lambda>s. \<not> isMainStar iz s \<and> isLuckyStar iz s) (palace_stars ps n)),
      \<lambda>n. extend None
            (filter (\<lambda>s. \<not> isMainStar iz s \<and> \<not> isLuckyStar iz s \<and> isEvilStar iz s)
               (palace_stars ps n)))"
  by (simp add: organize_loops_def fold_organize_palace)

lemma listed_extend_None: "listed (extend None vs) = vs"
  by (simp add: listed_def extend_def)

lemma length_three_filters:
  "length (filter P xs) + length (filter (\<lambda>x. \<not> P x \<and> Q x) xs)
     + length (filter (\<lambda>x. \<not> P x \<and> \<not> Q x \<and> R x) xs)
   = length (filter (\<lambda>x. P x \<or> Q x \<or> R x) xs)"
  by (induction xs) auto

text \<open>
  C3: for every chart and every palace name, the three records list, in the order of the chart,
  the stars of that palace that are main stars, those that are lucky and not main, and those that
  are evil and neither main nor lucky; a palace with no star of a category is absent from its
  record. So every occurrence of a star is listed at most once over the three records, and the
  stars of no category are listed nowhere: the three lists together are as long as the list of
  the stars of the palace that belong to some category.
\<close>

theorem organizeStarInfo_categories:
  "mainStars (organizeStarInfo iz ps) n =
     (let xs = filter (isMainStar iz) (palace_stars ps n) in if xs = [] then None else Some xs)
   \<and> luckyStars (organizeStarInfo iz ps) n =
     (let xs = filter (\<lambda>s. \<not> isMainStar iz s \<and> isLuckyStar iz s) (palace_stars ps n)
      in if xs = [] then None else Some xs)
   \<and> evilStars (organizeStarInfo iz ps) n =
     (let xs = filter (\<lambda>s. \<not> isMainStar iz s \<and> \<not> isLuckyStar iz s \<and> isEvilStar iz s)
                 (palace_stars ps n)
      in if xs = [] then None else Some xs)
   \<and> length (listed (mainStars (organizeStarInfo iz ps) n))
       + length (listed (luckyStars (organizeStarInfo iz ps) n))
       + length (listed (evilStars (organizeStarInfo iz ps) n))
     = length (filter (\<lambda>s. isMainStar iz s \<or> isLuckyStar iz s \<or> isEvilStar iz s)
                 (palace_stars ps n))"
proof -
  have m: "mainStars (organizeStarInfo iz ps) n
             = extend None (filter (isMainStar iz) (palace_stars ps n))"
    and l: "luckyStars (organizeStarInfo iz ps) n
             = extend None (filter (\<lambda>s. \<not> isMainStar iz s \<and> isLuckyStar iz s)
                 (palace_stars ps n))"
    and e: "evilStars (organizeStarInfo iz ps) n
             = extend None
                 (filter (\<lambda>s. \<not> isMainStar iz s \<and> \<not> isLuckyStar iz s \<and> isEvilStar iz s)
                    (palace_stars ps n))"
    by (simp_all add: organizeStarInfo_def organize_loops_eq)
  show ?thesis
    unfolding m l e listed_extend_None length_three_filters
    by (simp add: extend_None Let_def)
qed

lemma ex_palace_stars:
  "palace_stars ex_palaces fuqi_gong = [zuo_fu, tai_yang, tian_ma, qing_yang, tai_yin]"
  "palace_stars ex_palaces xiongdi_gong = []"
  by (simp_all add: palace_stars_def ex_palaces_def)

theorem organizeStarInfo_categories_witness:
  "mainStars (organizeStarInfo ex_iz ex_palaces) fuqi_gong = Some [tai_yang, tai_yin]
   \<and> luckyStars (organizeStarInfo ex_iz ex_palaces) fuqi_gong = Some [zuo_fu]
   \<and> evilStars (organizeStarInfo ex_iz ex_palaces) fuqi_gong = Some [qing_yang]
   \<and> isLuckyStar ex_iz tai_yang
   \<and> mainStars (organizeStarInfo ex_iz ex_palaces) xiongdi_gong = None"
proof -
  have c: "isMainStar ex_iz = (\<lambda>s. s \<in> set [zi_wei, tian_fu, tian_ji, tai_yang, tai_yin])"
    "isLuckyStar ex_iz = (\<lambda>s. s \<in> set [zuo_fu, tai_yang])"
    "isEvilStar ex_iz = (\<lambda>s. s \<in> set [qing_yang])"
    by (simp_all add: ex_iz_def)
  from organizeStarInfo_categories [of ex_iz ex_palaces fuqi_gong]
    organizeStarInfo_categories [of ex_iz ex_palaces xiongdi_gong]
  show ?thesis
    unfolding ex_palace_stars c by (simp add: Let_def)
qed

section \<open>Four transformations and their palaces\<close>

text \<open>
  What the specified \<open>findTransformationPalaces\<close> lists under a palace name: the pairs, in
  their order, once for each palace of that name that holds the star of the pair.
\<close>

lemma locate_in_palace_apply:
  "locate_in_palace t p m n =
     extend (m n) (if name p = n \<and> tr_star t \<in> set (stars p) then [t] else [])"
  by (simp add: locate_in_palace_def push_at_apply extend_Nil)

lemma fold_locate_in_palace:
  "fold (locate_in_palace t) ps m n =
     extend (m n)
       (concat (map (\<lambda>p. if name p = n \<and> tr_star t \<in> set (stars p) then [t] else []) ps))"
proof (induction ps arbitrary: m)
  case Nil
  then show ?case by (simp add: extend_Nil)
next
  case (Cons p ps)
  have "fold (locate_in_palace t) (p # ps) m n
        = fold (locate_in_palace t) ps (locate_in_palace t p m) n"
    by simp
  also have "\<dots> = extend (locate_in_palace t p m n)
       (concat (map (\<lambda>p. if name p = n \<and> tr_star t \<in> set (stars p) then [t] else []) ps))"
    by (rule Cons.IH)
  also have "\<dots> = extend (m n)
       ((if name p = n \<and> tr_star t \<in> set (stars p) then [t] else [])
        @ concat (map (\<lambda>p. if name p = n \<and> tr_star t \<in> set (stars p) then [t] else []) ps))"
    by (simp only: locate_in_palace_apply extend_extend)
  also have "\<dots> = extend (m n)
       (concat (map (\<lambda>p. if name p = n \<and> tr_star t \<in> set (stars p) then [t] else [])
          (p # ps)))"
    by simp
  finally show ?case .
qed

lemma fold_locate_transformation:
  "fold (locate_transformation ps) ts m n =
     extend (m n)
       (concat (map (\<lambda>t. concat (map (\<lambda>p. if name p = n \<and> tr_star t \<in> set (stars p)
                                          then [t] else []) ps)) ts))"
proof (induction ts arbitrary: m)
  case Nil
  then show ?case by (simp add: extend_Nil)
next
  case (Cons t ts)
  have "fold (locate_transformation ps) (t # ts) m n
        = fold (locate_transformation ps) ts (locate_transformation ps t m) n"
    by simp
  also have "\<dots> = extend (locate_transformation ps t m n)
       (concat (map (\<lambda>t. concat (map (\<lambda>p. if name p = n \<and> tr_star t \<in> set (stars p)
                                          then [t] else []) ps)) ts))"
    by (rule Cons.IH)
  also have "\<dots> = extend (m n)
       (concat (map (\<lambda>p. if name p = n \<and> tr_star t \<in> set (stars p) then [t] else []) ps)
        @ concat (map (\<lambda>t. concat (map (\<lambda>p. if name p = n \<and> tr_star t \<in> set (stars p)
                                          then [t] else []) ps)) ts))"
    by (simp only: locate_transformation_def fold_locate_in_palace extend_extend)
  also have "\<dots> = extend (m n)
       (concat (map (\<lambda>t. concat (map (\<lambda>p. if name p = n \<and> tr_star t \<in> set (stars p)
                                          then [t] else []) ps)) (t # ts)))"
    by simp
  finally show ?case .
qed

lemma spec_findTransformationPalaces_listed:
  "listed (spec_findTransformationPalaces ts ps n) =
     concat (map (\<lambda>t. concat (map (\<lambda>p. if name p = n \<and> tr_star t \<in> set (stars p)
                                        then [t] else []) ps)) ts)"
  by (simp add: spec_findTransformationPalaces_def fold_locate_transformation
      listed_extend_None)

lemma spec_findTransformationPalaces_mem:
  "t \<in> set (listed (spec_findTransformationPalaces ts ps n)) \<longleftrightarrow>
     t \<in> set ts \<and> (\<exists>p \<in> set ps. name p = n \<and> tr_star t \<in> set (stars p))"
  unfolding spec_findTransformationPalaces_listed
  by (auto split: if_splits)

text \<open>
  C4: \<open>calculateTransformations\<close> reports the transformation lists of the year stem and of the
  day stem as the chart service gives them, whatever the chart, and takes the palace map from
  one call of \<open>findTransformationPalaces\<close> on the year list followed by the day list. With
  \<open>findTransformationPalaces\<close> as the specification describes it, a pair is listed under a palace
  name exactly when it is in one of the two lists and a palace of that name holds its star: the
  pairs of both stems share one map, and a pair whose star is in no palace is listed under no
  palace while it stays in the list of its stem.
\<close>

theorem calculateTransformations_resolution:
  assumes r: "r = calculateTransformations iz fp ps"
    and ys: "ys = getTransformationsByStem iz (stem (fp_year fp))"
    and ds: "ds = getTransformationsByStem iz (stem (fp_day fp))"
  shows "yearStem r = \<lparr>st_stem = stem (fp_year fp), st_transformations = ys\<rparr>
       \<and> dayStem r = \<lparr>st_stem = stem (fp_day fp), st_transformations = ds\<rparr>
       \<and> tr_palaces r = findTransformationPalaces iz (ys @ ds) ps
       \<and> (findTransformationPalaces iz = spec_findTransformationPalaces \<longrightarrow>
            (\<forall>t n. t \<in> set (listed (tr_palaces r n)) \<longleftrightarrow>
                     t \<in> set (ys @ ds)
                     \<and> (\<exists>p \<in> set ps. name p = n \<and> tr_star t \<in> set (stars p))))"
proof -
  have a: "yearStem r = \<lparr>st_stem = stem (fp_year fp), st_transformations = ys\<rparr>"
    and b: "dayStem r = \<lparr>st_stem = stem (fp_day fp), st_transformations = ds\<rparr>"
    and c: "tr_palaces r = findTransformationPalaces iz (ys @ ds) ps"
    unfolding r ys ds by (simp_all add: calculateTransformations_def Let_def)
  have "\<forall>t n. t \<in> set (listed (tr_palaces r n)) \<longleftrightarrow>
                     t \<in> set (ys @ ds)
                     \<and> (\<exists>p \<in> set ps. name p = n \<and> tr_star t \<in> set (stars p))"
    if "findTransformationPalaces iz = spec_findTransformationPalaces"
    unfolding c that by (simp only: spec_findTransformationPalaces_mem) simp
  with a b c show ?thesis by blast
qed

lemma ex_stems:
  "getTransformationsByStem ex_iz (stem (fp_year ex_pillars))
     = [\<lparr>tr_star = tai_yang, tr_type = ''huaquan''\<rparr>, \<lparr>tr_star = tian_ji, tr_type = ''huaji''\<rparr>]"
  "getTransformationsByStem ex_iz (stem (fp_day ex_pillars))
     = [\<lparr>tr_star = tai_yin, tr_type = ''huake''\<rparr>]"
  "findTransformationPalaces ex_iz = spec_findTransformationPalaces"
  by (simp_all add: ex_iz_def ex_pillars_def)

theorem calculateTransformations_resolution_witness:
  "st_transformations (yearStem (calculateTransformations ex_iz ex_pillars ex_palaces))
     = [\<lparr>tr_star = tai_yang, tr_type = ''huaquan''\<rparr>, \<lparr>tr_star = tian_ji, tr_type = ''huaji''\<rparr>]
   \<and> listed (tr_palaces (calculateTransformations ex_iz ex_pillars ex_palaces) fuqi_gong)
     = [\<lparr>tr_star = tai_yang, tr_type = ''huaquan''\<rparr>, \<lparr>tr_star = tai_yin, tr_type = ''huake''\<rparr>]
   \<and> (\<forall>n. \<lparr>tr_star = tian_ji, tr_type = ''huaji''\<rparr>
          \<notin> set (listed (tr_palaces (calculateTransformations ex_iz ex_pillars ex_palaces) n)))"
proof -
  let ?r = "calculateTransformations ex_iz ex_pillars ex_palaces"
  let ?ys = "[\<lparr>tr_star = tai_yang, tr_type = ''huaquan''\<rparr>,
              \<lparr>tr_star = tian_ji, tr_type = ''huaji''\<rparr>]"
  let ?ds = "[\<lparr>tr_star = tai_yin, tr_type = ''huake''\<rparr>]"
  note T = calculateTransformations_resolution
      [where r = ?r and iz = ex_iz and fp = ex_pillars and ps = ex_palaces
         and ys = ?ys and ds = ?ds, OF refl ex_stems(1) [symmetric] ex_stems(2) [symmetric]]
  from T have y: "yearStem ?r = \<lparr>st_stem = stem (fp_year ex_pillars), st_transformations = ?ys\<rparr>"
    by (elim conjE)
  from T have "findTransformationPalaces ex_iz = spec_findTransformationPalaces \<longrightarrow>
            (\<forall>t n. t \<in> set (listed (tr_palaces ?r n)) \<longleftrightarrow>
                     t \<in> set (?ys @ ?ds)
                     \<and> (\<exists>p \<in> set ex_palaces. name p = n \<and> tr_star t \<in> set (stars p)))"
    by (elim conjE)
  from this ex_stems(3)
  have mem: "\<forall>t n. t \<in> set (listed (tr_palaces ?r n)) \<longleftrightarrow>
                     t \<in> set (?ys @ ?ds)
                     \<and> (\<exists>p \<in> set ex_palaces. name p = n \<and> tr_star t \<in> set (stars p))"
    by (rule mp)
  from T ex_stems(3) have p: "tr_palaces ?r = spec_findTransformationPalaces (?ys @ ?ds) ex_palaces"
    by (elim conjE) simp
  have 1: "st_transformations (yearStem ?r) = ?ys"
    by (simp add: y)
  have 2: "listed (tr_palaces ?r fuqi_gong)
     = [\<lparr>tr_star = tai_yang, tr_type = ''huaquan''\<rparr>, \<lparr>tr_star = tai_yin, tr_type = ''huake''\<rparr>]"
    unfolding p spec_findTransformationPalaces_listed by (simp add: ex_palaces_def)
  have 3: "\<forall>n. \<lparr>tr_star = tian_ji, tr_type = ''huaji''\<rparr> \<notin> set (listed (tr_palaces ?r n))"
  proof
    fix n
    from mem have "\<lparr>tr_star = tian_ji, tr_type = ''huaji''\<rparr> \<in> set (listed (tr_palaces ?r n))
      \<longleftrightarrow> \<lparr>tr_star = tian_ji, tr_type = ''huaji''\<rparr> \<in> set (?ys @ ?ds)
          \<and> (\<exists>p \<in> set ex_palaces. name p = n
                 \<and> tr_star \<lparr>tr_star = tian_ji, tr_type = ''huaji''\<rparr> \<in> set (stars p))"
      by (elim allE)
    also have "\<dots> \<longleftrightarrow> False"
      by (simp add: ex_palaces_def)
    finally show "\<lparr>tr_star = tian_ji, tr_type = ''huaji''\<rparr> \<notin> set (listed (tr_palaces ?r n))"
      by simp
  qed
  from 1 2 3 show ?thesis by (intro conjI)
qed

section \<open>Palace geometry\<close>

text \<open>The twelve canonical names are distinct, so a name determines its position.\<close>

lemma palaceNames_eq:
  "palaceNames = [ming_gong, xiongdi_gong, fuqi_gong, zinv_gong, caibo_gong, jie_gong,
     qianyi_gong, jiaoyou_gong, guanlu_gong, tianzhai_gong, fude_gong, fumu_gong]"
  by (simp add: palaceNames_def significanceMap_def)

lemma index_of_None: "index_of x xs = None \<longleftrightarrow> x \<notin> set xs"
  by (induction xs) auto

lemma index_of_nth:
  assumes "distinct xs" and "i < length xs"
  shows "index_of (xs ! i) xs = Some i"
  using assms
proof (induction xs arbitrary: i)
  case Nil
  then show ?case by simp
next
  case (Cons x xs)
  show ?case
  proof (cases i)
    case 0
    then show ?thesis by simp
  next
    case (Suc j)
    with Cons.prems have "j < length xs" "distinct xs" "xs ! j \<noteq> x"
      by auto
    with Cons.IH [of j] Suc show ?thesis by auto
  qed
qed

lemma distinct_palaceNames: "distinct palaceNames"
  unfolding palaceNames_eq by simp

lemma length_palaceNames: "length palaceNames = 12"
  unfolding palaceNames_eq by simp

lemma position_cases:
  fixes p :: int
  assumes "1 \<le> p" and "p \<le> 12"
  shows "\<exists>i < 12. p = int i + 1"
  using assms by (intro exI [of _ "nat (p - 1)"]) auto

text \<open>
  C2: with the palace geometry of the chart service as the specification describes it, for each
  of the twelve positions \<open>p\<close>, \<open>getTripleSquarePalaces\<close> applied to the canonical name at \<open>p\<close>
  returns exactly two triplicate palaces, the names at positions \<open>((p-1+4) mod 12)+1\<close> and
  \<open>((p-1-4+12) mod 12)+1\<close>, and exactly one square palace, the name at position
  \<open>((p-1+6) mod 12)+1\<close>. The function takes the name only, no chart. A name that is not one of
  the twelve fails with an error.
\<close>

theorem getTripleSquarePalaces_geometry:
  assumes iz: "iztro_getTripleSquarePalaces iz = spec_getTripleSquarePalaces"
  shows "(\<forall>p \<in> {1..12}. \<exists>r.
            getTripleSquarePalaces iz (palaceAt p) = Inr r
          \<and> triplePalaces r = [palaceAt ((p - 1 + 4) mod 12 + 1),
                                palaceAt ((p - 1 - 4 + 12) mod 12 + 1)]
          \<and> squarePalaces r = [palaceAt ((p - 1 + 6) mod 12 + 1)])
       \<and> (\<forall>palaceName. palaceName \<notin> set palaceNames \<longrightarrow>
            (\<exists>e. getTripleSquarePalaces iz palaceName = Inl e))"
proof (intro conjI ballI allI impI)
  fix p :: int
  assume "p \<in> {1..12}"
  then obtain i where i: "i < 12" "p = int i + 1"
    using position_cases [of p] by auto
  have at: "palaceAt (int k + 1) = palaceNames ! k" for k
    by (simp add: palaceAt_def)
  have idx: "index_of (palaceNames ! i) palaceNames = Some i"
    using i(1) by (intro index_of_nth distinct_palaceNames) (simp add: length_palaceNames)
  have m1: "(p - 1 + 4) mod 12 + 1 = int ((i + 4) mod 12) + 1"
    and m2: "(p - 1 - 4 + 12) mod 12 + 1 = int ((i + 12 - 4) mod 12) + 1"
    and m3: "(p - 1 + 6) mod 12 + 1 = int ((i + 6) mod 12) + 1"
    unfolding i(2) by (simp_all add: zmod_int)
  show "\<exists>r. getTripleSquarePalaces iz (palaceAt p) = Inr r
          \<and> triplePalaces r = [palaceAt ((p - 1 + 4) mod 12 + 1),
                                palaceAt ((p - 1 - 4 + 12) mod 12 + 1)]
          \<and> squarePalaces r = [palaceAt ((p - 1 + 6) mod 12 + 1)]"
    unfolding m1 m2 m3 at
    by (simp add: getTripleSquarePalaces_def iz spec_getTripleSquarePalaces_def i(2) at idx
        Let_def)
next
  fix palaceName
  assume "palaceName \<notin> set palaceNames"
  then have "index_of palaceName palaceNames = None"
    by (simp add: index_of_None)
  then show "\<exists>e. getTripleSquarePalaces iz palaceName = Inl e"
    by (simp add: getTripleSquarePalaces_def iz spec_getTripleSquarePalaces_def)
qed


lemma ex_iz_geometry: "iztro_getTripleSquarePalaces ex_iz = spec_getTripleSquarePalaces"
  by (simp add: ex_iz_def)

lemma ex_palaceAt:
  "palaceAt 1 = ming_gong" "palaceAt 5 = caibo_gong" "palaceAt 9 = guanlu_gong"
  "palaceAt 7 = qianyi_gong"
  by (simp_all add: palaceAt_def palaceNames_eq)

theorem getTripleSquarePalaces_geometry_witness:
  "(\<exists>r. getTripleSquarePalaces ex_iz ming_gong = Inr r
        \<and> triplePalaces r = [caibo_gong, guanlu_gong]
        \<and> squarePalaces r = [qianyi_gong])
   \<and> (\<exists>e. getTripleSquarePalaces ex_iz ''Ming'' = Inl e)"
proof -
  note T = getTripleSquarePalaces_geometry [OF ex_iz_geometry]
  from T have "\<forall>p \<in> {1..12}. \<exists>r.
            getTripleSquarePalaces ex_iz (palaceAt p) = Inr r
          \<and> triplePalaces r = [palaceAt ((p - 1 + 4) mod 12 + 1),
                                palaceAt ((p - 1 - 4 + 12) mod 12 + 1)]
          \<and> squarePalaces r = [palaceAt ((p - 1 + 6) mod 12 + 1)]"
    by (rule conjunct1)
  moreover have "(1::int) \<in> {1..12}"
    by simp
  ultimately have "\<exists>r.
            getTripleSquarePalaces ex_iz (palaceAt 1) = Inr r
          \<and> triplePalaces r = [palaceAt ((1 - 1 + 4) mod 12 + 1),
                                palaceAt ((1 - 1 - 4 + 12) mod 12 + 1)]
          \<and> squarePalaces r = [palaceAt ((1 - 1 + 6) mod 12 + 1)]"
    by (rule bspec)
  then have a: "\<exists>r. getTripleSquarePalaces ex_iz ming_gong = Inr r
        \<and> triplePalaces r = [caibo_gong, guanlu_gong]
        \<and> squarePalaces r = [qianyi_gong]"
    by (simp add: ex_palaceAt)
  have "''Ming'' \<notin> set palaceNames"
    unfolding palaceNames_eq by simp
  with T have b: "\<exists>e. getTripleSquarePalaces ex_iz ''Ming'' = Inl e"
    by blast
  from a b show ?thesis by (rule conjI)
qed

end
